theory Spec2Isabelle
  imports Main
begin

section \<open>Exceptions\<close>

text \<open>
  An exception is an \<^verbatim>\<open>Error\<close> that the program throws itself or a \<^verbatim>\<open>SyntaxError\<close> of
  the pattern constructor, each with its message.  A function that may throw returns a
  sum, the exception on the left.
\<close>

datatype error = Error string | SyntaxError string

section \<open>JavaScript strings\<close>

text \<open>
  A JavaScript string is modelled as a \<^typ>\<open>string\<close>: a list of 8-bit code units.
  The white space of \<^verbatim>\<open>\s\<close> and of \<^verbatim>\<open>trim()\<close> is, in that range: TAB, LF, VT, FF, CR,
  SPACE and NBSP.  Indices that the source may hold negative (\<^verbatim>\<open>indexOf\<close> returns -1)
  are integers.
\<close>

definition is_space :: "char \<Rightarrow> bool" where
  "is_space c = (c = CHR 0x09 \<or> c = CHR 0x0A \<or> c = CHR 0x0B \<or> c = CHR 0x0C \<or> c = CHR 0x0D
     \<or> c = CHR 0x20 \<or> c = CHR 0xA0)"

definition trim :: "string \<Rightarrow> string" where
  "trim s = rev (dropWhile is_space (rev (dropWhile is_space s)))"

text \<open>\<^verbatim>\<open>s.substring(a, b)\<close>: both bounds clamped to \<open>[0, length]\<close>, swapped when \<open>a > b\<close>.\<close>

definition substring :: "string \<Rightarrow> int \<Rightarrow> int \<Rightarrow> string" where
  "substring s a b =
     (let n = int (length s);
          a' = max 0 (min a n);
          b' = max 0 (min b n)
      in take (nat (max a' b' - min a' b')) (drop (nat (min a' b')) s))"

text \<open>\<^verbatim>\<open>s.substring(a)\<close>.\<close>

definition substring_from :: "string \<Rightarrow> int \<Rightarrow> string" where
  "substring_from s a = substring s a (int (length s))"

text \<open>\<^verbatim>\<open>s.indexOf(c, from)\<close> for a one-character needle: the first index \<open>\<ge> from\<close>, or -1.\<close>

fun index_in :: "char \<Rightarrow> string \<Rightarrow> nat \<Rightarrow> int" where
  "index_in c [] k = -1"
| "index_in c (x # xs) k = (if x = c then int k else index_in c xs (Suc k))"

definition indexOf :: "string \<Rightarrow> char \<Rightarrow> int \<Rightarrow> int" where
  "indexOf s c from = (let p = nat (max 0 from) in index_in c (drop p s) p)"

section \<open>Plain objects used as dictionaries\<close>

text \<open>
  \<^verbatim>\<open>parseAttributes\<close> stores into a plain object, \<^verbatim>\<open>attributes[name] = value\<close>, and
  \<^verbatim>\<open>parse\<close> reads it back with \<^verbatim>\<open>Object.entries\<close>.  The own properties of an object are
  listed with the array-index keys first, in ascending order, then the other keys in the
  order they were created; assigning to an existing key keeps its place.  Assigning to
  \<^verbatim>\<open>__proto__\<close> creates no property while the object still has its prototype: \<^verbatim>\<open>null\<close>
  removes the prototype, a string is ignored.  A value is \<open>None\<close> for \<^verbatim>\<open>null\<close>.
\<close>

record jsobject =
  entries :: "(string \<times> string option) list"
  has_proto :: bool

definition empty_object :: jsobject where
  "empty_object = \<lparr>entries = [], has_proto = True\<rparr>"

definition is_digit :: "char \<Rightarrow> bool" where
  "is_digit c = (c \<in> set ''0123456789'')"

definition decimal_value :: "string \<Rightarrow> int" where
  "decimal_value s = foldl (\<lambda>n c. 10 * n + (of_char c - 48)) 0 s"

definition is_array_index :: "string \<Rightarrow> bool" where
  "is_array_index k =
     (case k of
        [] \<Rightarrow> False
      | c # cs \<Rightarrow>
          if list_all is_digit k
          then (if c = CHR ''0'' then cs = []
                else length k \<le> 10 \<and> decimal_value k < 4294967295)
          else False)"

fun insert_index :: "string \<Rightarrow> string option \<Rightarrow> (string \<times> string option) list
    \<Rightarrow> (string \<times> string option) list" where
  "insert_index k v [] = [(k, v)]"
| "insert_index k v ((k', v') # rest) =
     (if is_array_index k' \<and> decimal_value k' < decimal_value k
      then (k', v') # insert_index k v rest
      else (k, v) # (k', v') # rest)"

definition obj_set :: "string \<Rightarrow> string option \<Rightarrow> jsobject \<Rightarrow> jsobject" where
  "obj_set k v obj =
     (if k = ''__proto__'' \<and> has_proto obj
      then (if v = None then obj\<lparr>has_proto := False\<rparr> else obj)
      else if map_of (entries obj) k = None
      then (if is_array_index k
            then obj\<lparr>entries := insert_index k v (entries obj)\<rparr>
            else obj\<lparr>entries := entries obj @ [(k, v)]\<rparr>)
      else obj\<lparr>entries := map (\<lambda>(k', v'). if k' = k then (k', v) else (k', v')) (entries obj)\<rparr>)"

section \<open>The attribute parser\<close>

text \<open>
  \<^verbatim>\<open>text.match(RE_ATTR_SEP)\<close> with \<^verbatim>\<open>RE_ATTR_SEP = /[=\s]/\<close>: the index of the first
  character that is \<^verbatim>\<open>=\<close> or white space, and that character.
\<close>

fun match_RE_ATTR_SEP_from :: "string \<Rightarrow> nat \<Rightarrow> (nat \<times> char) option" where
  "match_RE_ATTR_SEP_from [] k = None"
| "match_RE_ATTR_SEP_from (c # cs) k =
     (if c = CHR ''='' \<or> is_space c then Some (k, c) else match_RE_ATTR_SEP_from cs (Suc k))"

definition match_RE_ATTR_SEP :: "string \<Rightarrow> (nat \<times> char) option" where
  "match_RE_ATTR_SEP text = match_RE_ATTR_SEP_from text 0"

text \<open>\<^verbatim>\<open>(value && value[0] === "'") || value[0] === '"'\<close>.\<close>

definition starts_with_quote :: "string \<Rightarrow> bool" where
  "starts_with_quote v = (case v of [] \<Rightarrow> False | c # _ \<Rightarrow> c = CHR 0x27 \<or> c = CHR 0x22)"

text \<open>
  One activation of \<^verbatim>\<open>parseAttributes(text, attributes)\<close> for a non-empty \<open>text\<close>: the
  \<open>attributes\<close> object as the activation leaves it, and the text of the recursive call it
  makes (\<open>None\<close> when it returns without one).  The branches are the source's, in its
  order.
\<close>

definition parseAttributes_step :: "string \<Rightarrow> jsobject \<Rightarrow> jsobject \<times> string option" where
  "parseAttributes_step text attributes =
     (case match_RE_ATTR_SEP text of
        None \<Rightarrow>
          (let spaceIndex = indexOf text CHR 0x20 0 in
           if spaceIndex = -1 then
             (let name = trim text in
              (if name = [] then attributes else obj_set name None attributes, None))
           else
             (let name = trim (substring text 0 spaceIndex) in
              (if name = [] then attributes else obj_set name None attributes,
               Some (trim (substring_from text (spaceIndex + 1))))))
      | Some (index, m0) \<Rightarrow>
          if m0 = CHR ''='' then
            (let name = trim (substring text 0 (int index)) in
             if index + 1 \<ge> length text then (obj_set name (Some []) attributes, None)
             else
               (let chr = text ! (index + 1);
                    end = (if chr = CHR 0x27 then indexOf text CHR 0x27 (int index + 2)
                           else if chr = CHR 0x22 then indexOf text CHR 0x22 (int index + 2)
                           else indexOf text CHR 0x20 (int index));
                    val = (if end = -1 then trim (substring_from text (int index + 1))
                           else substring text (int index + 1) (end + 1))
                in (if name = [] then attributes
                    else if starts_with_quote val
                    then obj_set name (Some (substring val 1 (int (length val) - 1))) attributes
                    else obj_set name (Some (trim val)) attributes,
                    Some (trim (substring_from text (end + 1))))))
          else
            (let name = trim (substring text 0 (int index)) in
             (if name = [] then attributes else obj_set name None attributes,
              Some (trim (substring_from text (int index + 1))))))"

text \<open>
  \<^verbatim>\<open>parseAttributes\<close> itself.  The source mutates the one \<open>attributes\<close> object through
  all its recursive calls and returns it, so the result is the object as the innermost
  call leaves it.  The recursion has no bound in the source: a call that never returns
  (in JavaScript: the stack overflows, a \<^verbatim>\<open>RangeError\<close>) is the value \<open>None\<close>.
\<close>

partial_function (option) parseAttributes :: "string \<Rightarrow> jsobject \<Rightarrow> jsobject option" where
  "parseAttributes text attributes =
     (if text = [] then Some attributes
      else case parseAttributes_step text attributes of
             (attributes', None) \<Rightarrow> Some attributes'
           | (attributes', Some rest) \<Rightarrow> parseAttributes rest attributes')"

declare parseAttributes.simps [code]

section \<open>Regular expressions\<close>

text \<open>
  A pattern is a syntax tree, run by a backtracking matcher with the priorities of
  JavaScript's: alternatives left to right, greedy quantifiers longest first, lazy ones
  shortest first, an iteration that consumes nothing refused.  The patterns that the
  source writes as literals (\<^verbatim>\<open>RE_ENTITY\<close>, \<^verbatim>\<open>RE_QUERY\<close>) are given as their trees; the
  one it builds from a string (\<^verbatim>\<open>RE_TAG\<close>) is read by the constructor below.
  A named group records the text it matched; a group without a name only brackets and
  is not a node of the tree.  The matcher hands the rest of the input and the groups to
  a continuation, whose failure makes it backtrack.
\<close>

type_synonym env = "(string \<times> string) list"

datatype regex =
    Eps
  | Chr char
  | Cls "char \<Rightarrow> bool"
  | Seq regex regex
  | Alt regex regex
  | Opt regex
  | Star regex
  | LazyStar regex
  | Group string regex

function rmatch :: "regex \<Rightarrow> string \<Rightarrow> env \<Rightarrow> (string \<Rightarrow> env \<Rightarrow> 'a option) \<Rightarrow> 'a option" where
  "rmatch Eps s e k = k s e"
| "rmatch (Chr c) s e k = (case s of [] \<Rightarrow> None | x # xs \<Rightarrow> if x = c then k xs e else None)"
| "rmatch (Cls P) s e k = (case s of [] \<Rightarrow> None | x # xs \<Rightarrow> if P x then k xs e else None)"
| "rmatch (Seq r1 r2) s e k = rmatch r1 s e (\<lambda>s' e'. rmatch r2 s' e' k)"
| "rmatch (Alt r1 r2) s e k =
     (case rmatch r1 s e k of Some x \<Rightarrow> Some x | None \<Rightarrow> rmatch r2 s e k)"
| "rmatch (Opt r) s e k = (case rmatch r s e k of Some x \<Rightarrow> Some x | None \<Rightarrow> k s e)"
| "rmatch (Star r) s e k =
     (case rmatch r s e
             (\<lambda>s' e'. if length s' < length s then rmatch (Star r) s' e' k else None) of
        Some x \<Rightarrow> Some x
      | None \<Rightarrow> k s e)"
| "rmatch (LazyStar r) s e k =
     (case k s e of
        Some x \<Rightarrow> Some x
      | None \<Rightarrow>
          rmatch r s e
            (\<lambda>s' e'. if length s' < length s then rmatch (LazyStar r) s' e' k else None))"
| "rmatch (Group n r) s e k =
     rmatch r s e (\<lambda>s' e'. k s' ((n, take (length s - length s') s) # e'))"
  by pat_completeness auto
termination
  by (relation "inv_image (less_than <*lex*> less_than) (\<lambda>(r, s, e, k). (size r, length s))")
    auto

definition Plus :: "regex \<Rightarrow> regex" where
  "Plus r = Seq r (Star r)"

definition Seqs :: "regex list \<Rightarrow> regex" where
  "Seqs rs = foldr Seq rs Eps"

text \<open>
  A match object: \<^verbatim>\<open>match.index\<close>, \<^verbatim>\<open>match[0]\<close> and the named groups that took part
  (\<^verbatim>\<open>match.groups.x\<close> is \<open>map_of (match_groups m) ''x''\<close>, \<open>None\<close> for \<^verbatim>\<open>undefined\<close>).
\<close>

record re_match =
  match_index :: nat
  match_0 :: string
  match_groups :: env

text \<open>A match at the start of \<open>s\<close>, the text from position \<open>p\<close> on; then the leftmost match.\<close>

definition match_at :: "regex \<Rightarrow> string \<Rightarrow> nat \<Rightarrow> re_match option" where
  "match_at r s p =
     (case rmatch r s [] (\<lambda>s' e. Some (s', e)) of
        Some (s', e) \<Rightarrow>
          Some \<lparr>match_index = p, match_0 = take (length s - length s') s, match_groups = e\<rparr>
      | None \<Rightarrow> None)"

fun scan :: "regex \<Rightarrow> string \<Rightarrow> nat \<Rightarrow> re_match option" where
  "scan r [] p = match_at r [] p"
| "scan r (c # cs) p =
     (case match_at r (c # cs) p of Some m \<Rightarrow> Some m | None \<Rightarrow> scan r cs (Suc p))"

text \<open>
  \<^verbatim>\<open>pattern.exec(text)\<close> for a pattern with the \<^verbatim>\<open>g\<close> flag.  The pattern object holds
  the cursor \<^verbatim>\<open>lastIndex\<close>: the search starts there, a match moves it to the match's
  end, a failure (or a cursor beyond the text) resets it to 0.  The cursor is passed in
  and returned.
\<close>

definition exec :: "regex \<Rightarrow> string \<Rightarrow> nat \<Rightarrow> re_match option \<times> nat" where
  "exec pattern text lastIndex =
     (if lastIndex > length text then (None, 0)
      else case scan pattern (drop lastIndex text) lastIndex of
             None \<Rightarrow> (None, 0)
           | Some m \<Rightarrow> (Some m, match_index m + length (match_0 m)))"

section \<open>The pattern constructor\<close>

text \<open>
  \<^verbatim>\<open>new RegExp(source, flags)\<close>: the syntax tree of the pattern, or the \<^verbatim>\<open>SyntaxError\<close>
  that the constructor throws (the message names the reason; its wording is the
  engine's).  The source is read from left to right, one character at a time, with
  the groups that are still open on a stack.  The syntax read is the one the patterns of
  this program are written in: characters, the dot, escapes, classes, groups with and
  without a name, alternatives, the quantifiers \<^verbatim>\<open>*\<close>, \<^verbatim>\<open>+\<close>, \<^verbatim>\<open>?\<close> and their lazy
  forms.  The result is \<open>None\<close> for a pattern that uses anything else: an assertion
  (\<^verbatim>\<open>^\<close>, \<^verbatim>\<open>$\<close>, \<^verbatim>\<open>\b\<close>, \<^verbatim>\<open>\B\<close>, a lookahead or lookbehind), an opening brace, an
  escaped digit, one of the escapes \<^verbatim>\<open>\c \x \u \k \p \P\<close>, a group name that is used
  twice or is not plain ASCII, a flag other than \<^verbatim>\<open>g\<close> and \<^verbatim>\<open>m\<close>.  Such a pattern is
  outside this model.
\<close>

definition is_word :: "char \<Rightarrow> bool" where
  "is_word c = (c \<in> set ''abcdefghijklmnopqrstuvwxyzABCDEFGHIJKLMNOPQRSTUVWXYZ0123456789_'')"

definition is_dot :: "char \<Rightarrow> bool" where
  "is_dot c = (c \<noteq> CHR 0x0A \<and> c \<noteq> CHR 0x0D)"

text \<open>
  The escapes \<^verbatim>\<open>\d \D \s \S \w \W\<close>, the control escapes \<^verbatim>\<open>\t \n \v \f \r\<close>, and the
  escapes that this model does not read.  Any other escaped character stands for itself.
\<close>

definition class_escape :: "char \<Rightarrow> (char \<Rightarrow> bool) option" where
  "class_escape c =
     (if c = CHR ''d'' then Some is_digit
      else if c = CHR ''D'' then Some (\<lambda>x. \<not> is_digit x)
      else if c = CHR ''s'' then Some is_space
      else if c = CHR ''S'' then Some (\<lambda>x. \<not> is_space x)
      else if c = CHR ''w'' then Some is_word
      else if c = CHR ''W'' then Some (\<lambda>x. \<not> is_word x)
      else None)"

definition control_escape :: "char \<Rightarrow> char option" where
  "control_escape c =
     map_of [(CHR ''t'', CHR 0x09), (CHR ''n'', CHR 0x0A), (CHR ''v'', CHR 0x0B),
             (CHR ''f'', CHR 0x0C), (CHR ''r'', CHR 0x0D)] c"

definition unread_escape :: "char \<Rightarrow> bool" where
  "unread_escape c = (c \<in> set ''0123456789bBcxukpP'')"

text \<open>
  The members of a class, as they are read: a character, an unescaped \<^verbatim>\<open>-\<close>, or one of
  the escapes \<^verbatim>\<open>\d \D \s \S \w \W\<close>.  A \<^verbatim>\<open>-\<close> between two characters makes a range; any
  other \<^verbatim>\<open>-\<close> stands for itself.
\<close>

datatype class_item = Lit char | Dash | Esc "char \<Rightarrow> bool"

definition in_range :: "char \<Rightarrow> char \<Rightarrow> char \<Rightarrow> bool" where
  "in_range a b c = ((of_char a :: nat) \<le> of_char c \<and> (of_char c :: nat) \<le> of_char b)"

fun class_of :: "class_item list \<Rightarrow> error + (char \<Rightarrow> bool)" where
  "class_of [] = Inr (\<lambda>c. False)"
| "class_of (Lit a # Dash # Lit b # items) =
     (if (of_char b :: nat) < of_char a
      then Inl (SyntaxError ''Range out of order in character class'')
      else case class_of items of
             Inl e \<Rightarrow> Inl e
           | Inr P \<Rightarrow> Inr (\<lambda>c. in_range a b c \<or> P c))"
| "class_of (Lit a # items) =
     (case class_of items of Inl e \<Rightarrow> Inl e | Inr P \<Rightarrow> Inr (\<lambda>c. c = a \<or> P c))"
| "class_of (Dash # items) =
     (case class_of items of Inl e \<Rightarrow> Inl e | Inr P \<Rightarrow> Inr (\<lambda>c. c = CHR ''-'' \<or> P c))"
| "class_of (Esc Q # items) =
     (case class_of items of Inl e \<Rightarrow> Inl e | Inr P \<Rightarrow> Inr (\<lambda>c. Q c \<or> P c))"

text \<open>
  A group that is being read: its name if it has one, its finished alternatives and the
  terms of the alternative at hand, both latest first.  The pattern as a whole is the
  outermost such group.
\<close>

type_synonym frame = "string option \<times> regex list \<times> regex list"

fun alternatives :: "regex list \<Rightarrow> regex" where
  "alternatives [] = Eps"
| "alternatives [r] = r"
| "alternatives (r # rs) = Alt r (alternatives rs)"

definition frame_regex :: "frame \<Rightarrow> regex" where
  "frame_regex f =
     (case f of
        (n, alts, terms) \<Rightarrow>
          (let r = alternatives (rev (Seqs (rev terms) # alts))
           in case n of None \<Rightarrow> r | Some name \<Rightarrow> Group name r))"

text \<open>
  What the reader is in the middle of, and what a quantifier would apply to: nothing, the
  term just read, or a term that already has its quantifier, greedy (a \<^verbatim>\<open>?\<close> makes it
  lazy) or lazy.
\<close>

datatype mode =
    Normal
  | Escape
  | Group_open
  | Group_question
  | Group_name string
  | Class_open
  | Class_items bool "class_item list"
  | Class_escape bool "class_item list"

datatype prev = Nothing | Atom | Greedy | Lazy

record reader =
  re_frame :: frame
  re_outer :: "frame list"
  re_names :: "string list"
  re_prev :: prev
  re_mode :: mode

definition add_atom :: "regex \<Rightarrow> reader \<Rightarrow> reader" where
  "add_atom r s =
     (case re_frame s of
        (n, alts, terms) \<Rightarrow>
          s\<lparr>re_frame := (n, alts, r # terms), re_prev := Atom, re_mode := Normal\<rparr>)"

definition quantify :: "(regex \<Rightarrow> regex) \<Rightarrow> reader \<Rightarrow> error + reader" where
  "quantify q s =
     (case re_frame s of
        (n, alts, terms) \<Rightarrow>
          (case terms of
             [] \<Rightarrow> Inl (SyntaxError ''Nothing to repeat'')
           | r # rs \<Rightarrow>
               if re_prev s = Atom
               then Inr (s\<lparr>re_frame := (n, alts, q r # rs), re_prev := Greedy\<rparr>)
               else Inl (SyntaxError ''Nothing to repeat'')))"

fun lazy :: "regex \<Rightarrow> regex" where
  "lazy (Star r) = LazyStar r"
| "lazy (Seq r (Star r')) = Seq r (LazyStar r')"
| "lazy (Opt r) = Alt Eps r"
| "lazy r = r"

definition make_lazy :: "reader \<Rightarrow> reader" where
  "make_lazy s =
     (case re_frame s of
        (n, alts, terms) \<Rightarrow>
          s\<lparr>re_frame := (n, alts, (case terms of [] \<Rightarrow> [] | r # rs \<Rightarrow> lazy r # rs)),
            re_prev := Lazy\<rparr>)"

definition next_alternative :: "reader \<Rightarrow> reader" where
  "next_alternative s =
     (case re_frame s of
        (n, alts, terms) \<Rightarrow> s\<lparr>re_frame := (n, Seqs (rev terms) # alts, []), re_prev := Nothing\<rparr>)"

definition open_group :: "string option \<Rightarrow> reader \<Rightarrow> reader" where
  "open_group n s =
     s\<lparr>re_outer := re_frame s # re_outer s, re_frame := (n, [], []),
       re_prev := Nothing, re_mode := Normal\<rparr>"

definition close_group :: "reader \<Rightarrow> error + reader" where
  "close_group s =
     (case re_outer s of
        [] \<Rightarrow> Inl (SyntaxError ''Unmatched )'')
      | (n, alts, terms) # fs \<Rightarrow>
          Inr (s\<lparr>re_frame := (n, alts, frame_regex (re_frame s) # terms), re_outer := fs,
                 re_prev := Atom, re_mode := Normal\<rparr>))"

text \<open>A character outside a class, an escape and a group head.\<close>

definition normal_char :: "reader \<Rightarrow> char \<Rightarrow> (error + reader) option" where
  "normal_char s c =
     (if c = CHR 0x5C then Some (Inr (s\<lparr>re_mode := Escape\<rparr>))
      else if c = CHR ''['' then Some (Inr (s\<lparr>re_mode := Class_open\<rparr>))
      else if c = CHR ''('' then Some (Inr (s\<lparr>re_mode := Group_open\<rparr>))
      else if c = CHR '')'' then Some (close_group s)
      else if c = CHR ''|'' then Some (Inr (next_alternative s))
      else if c = CHR ''*'' then Some (quantify Star s)
      else if c = CHR ''+'' then Some (quantify Plus s)
      else if c = CHR ''?'' then
        Some (if re_prev s = Greedy then Inr (make_lazy s) else quantify Opt s)
      else if c = CHR ''^'' \<or> c = CHR ''$'' \<or> c = CHR ''{'' then None
      else if c = CHR ''.'' then Some (Inr (add_atom (Cls is_dot) s))
      else Some (Inr (add_atom (Chr c) s)))"

definition escaped_char :: "reader \<Rightarrow> char \<Rightarrow> (error + reader) option" where
  "escaped_char s c =
     (case class_escape c of
        Some P \<Rightarrow> Some (Inr (add_atom (Cls P) s))
      | None \<Rightarrow>
          (case control_escape c of
             Some x \<Rightarrow> Some (Inr (add_atom (Chr x) s))
           | None \<Rightarrow> if unread_escape c then None else Some (Inr (add_atom (Chr c) s))))"

text \<open>
  A group name is an identifier: a letter, \<^verbatim>\<open>_\<close> or \<^verbatim>\<open>$\<close>, then these and digits.  A
  name with an escape or a character beyond ASCII, and a name used twice, are not read.
\<close>

definition is_name_start :: "char \<Rightarrow> bool" where
  "is_name_start c = (c \<in> set ''abcdefghijklmnopqrstuvwxyzABCDEFGHIJKLMNOPQRSTUVWXYZ_$'')"

definition group_name_char :: "reader \<Rightarrow> string \<Rightarrow> char \<Rightarrow> (error + reader) option" where
  "group_name_char s name c =
     (if c = CHR ''>'' then
        (if name = [] then Some (Inl (SyntaxError ''Invalid capture group name''))
         else if name \<in> set (re_names s) then None
         else Some (Inr (open_group (Some name) (s\<lparr>re_names := name # re_names s\<rparr>))))
      else if name = [] \<and> (c = CHR ''='' \<or> c = CHR ''!'') then None
      else if is_name_start c \<or> (name \<noteq> [] \<and> is_digit c) then
        Some (Inr (s\<lparr>re_mode := Group_name (name @ [c])\<rparr>))
      else if c = CHR 0x5C \<or> (of_char c :: nat) \<ge> 128 then None
      else Some (Inl (SyntaxError ''Invalid capture group name'')))"

text \<open>A character inside a class.\<close>

definition class_char :: "reader \<Rightarrow> bool \<Rightarrow> class_item list \<Rightarrow> char \<Rightarrow> error + reader" where
  "class_char s negated items c =
     (if c = CHR '']'' then
        (case class_of (rev items) of
           Inl e \<Rightarrow> Inl e
         | Inr P \<Rightarrow> Inr (add_atom (Cls (if negated then (\<lambda>x. \<not> P x) else P)) s))
      else if c = CHR 0x5C then Inr (s\<lparr>re_mode := Class_escape negated items\<rparr>)
      else if c = CHR ''-'' then Inr (s\<lparr>re_mode := Class_items negated (Dash # items)\<rparr>)
      else Inr (s\<lparr>re_mode := Class_items negated (Lit c # items)\<rparr>))"

definition class_escaped_char ::
    "reader \<Rightarrow> bool \<Rightarrow> class_item list \<Rightarrow> char \<Rightarrow> (error + reader) option" where
  "class_escaped_char s negated items c =
     (case class_escape c of
        Some P \<Rightarrow> Some (Inr (s\<lparr>re_mode := Class_items negated (Esc P # items)\<rparr>))
      | None \<Rightarrow>
          (case control_escape c of
             Some x \<Rightarrow> Some (Inr (s\<lparr>re_mode := Class_items negated (Lit x # items)\<rparr>))
           | None \<Rightarrow>
               if c = CHR ''b'' then
                 Some (Inr (s\<lparr>re_mode := Class_items negated (Lit (CHR 0x08) # items)\<rparr>))
               else if unread_escape c then None
               else Some (Inr (s\<lparr>re_mode := Class_items negated (Lit c # items)\<rparr>))))"

text \<open>One character of the source.\<close>

definition read_char :: "reader \<Rightarrow> char \<Rightarrow> (error + reader) option" where
  "read_char s c =
     (case re_mode s of
        Normal \<Rightarrow> normal_char s c
      | Escape \<Rightarrow> escaped_char s c
      | Group_open \<Rightarrow>
          if c = CHR ''?'' then Some (Inr (s\<lparr>re_mode := Group_question\<rparr>))
          else normal_char (open_group None s) c
      | Group_question \<Rightarrow>
          if c = CHR '':'' then Some (Inr (open_group None s))
          else if c = CHR ''<'' then Some (Inr (s\<lparr>re_mode := Group_name []\<rparr>))
          else if c = CHR ''='' \<or> c = CHR ''!'' then None
          else Some (Inl (SyntaxError ''Invalid group''))
      | Group_name name \<Rightarrow> group_name_char s name c
      | Class_open \<Rightarrow>
          if c = CHR ''^'' then Some (Inr (s\<lparr>re_mode := Class_items True []\<rparr>))
          else Some (class_char s False [] c)
      | Class_items negated items \<Rightarrow> Some (class_char s negated items c)
      | Class_escape negated items \<Rightarrow> class_escaped_char s negated items c)"

text \<open>The end of the source.\<close>

definition end_of_pattern :: "reader \<Rightarrow> error + regex" where
  "end_of_pattern s =
     (case re_mode s of
        Normal \<Rightarrow>
          if re_outer s = [] then Inr (frame_regex (re_frame s))
          else Inl (SyntaxError ''Unterminated group'')
      | Escape \<Rightarrow> Inl (SyntaxError (CHR 0x5C # '' at end of pattern''))
      | Group_open \<Rightarrow> Inl (SyntaxError ''Unterminated group'')
      | Group_question \<Rightarrow> Inl (SyntaxError ''Invalid group'')
      | Group_name name \<Rightarrow> Inl (SyntaxError ''Invalid capture group name'')
      | Class_open \<Rightarrow> Inl (SyntaxError ''Unterminated character class'')
      | Class_items negated items \<Rightarrow> Inl (SyntaxError ''Unterminated character class'')
      | Class_escape negated items \<Rightarrow> Inl (SyntaxError (CHR 0x5C # '' at end of pattern'')))"

fun read_pattern :: "reader \<Rightarrow> string \<Rightarrow> (error + regex) option" where
  "read_pattern s [] = Some (end_of_pattern s)"
| "read_pattern s (c # cs) =
     (case read_char s c of
        None \<Rightarrow> None
      | Some (Inl e) \<Rightarrow> Some (Inl e)
      | Some (Inr s') \<Rightarrow> read_pattern s' cs)"

text \<open>
  The flags: a letter that is no flag, or a flag given twice, is an error.  Those read
  are \<^verbatim>\<open>g\<close>, which every pattern of this model has (it makes \<^verbatim>\<open>exec\<close> search from the
  cursor \<^verbatim>\<open>lastIndex\<close>), and \<^verbatim>\<open>m\<close>, which changes only \<^verbatim>\<open>^\<close> and \<^verbatim>\<open>$\<close>.
\<close>

definition RegExp :: "string \<Rightarrow> string \<Rightarrow> (error + regex) option" where
  "RegExp source flags =
     (if \<not> (set flags \<subseteq> set ''dgimsuvy'' \<and> distinct flags)
      then Some (Inl (SyntaxError ''Invalid flags''))
      else if \<not> (CHR ''g'' \<in> set flags \<and> set flags \<subseteq> set ''gm'') then None
      else read_pattern
             \<lparr>re_frame = (None, [], []), re_outer = [], re_names = [], re_prev = Nothing,
              re_mode = Normal\<rparr>
             source)"

section \<open>Fragments and markers\<close>

record fragment =
  source :: string
  frag_start :: int
  frag_end :: int

text \<open>\<^verbatim>\<open>fragment.slice(start, end)\<close>; \<open>None\<close> is the default \<^verbatim>\<open>end = null\<close>.\<close>

definition slice :: "fragment \<Rightarrow> int \<Rightarrow> int option \<Rightarrow> fragment" where
  "slice f a b =
     (let i = (if a \<ge> 0 then frag_start f + a else frag_end f + a);
          j = (case b of
                 None \<Rightarrow> frag_end f
               | Some e \<Rightarrow> if e > 0 then frag_start f + e else frag_end f + e)
      in \<lparr>source = source f, frag_start = min i j, frag_end = max i j\<rparr>)"

definition rawtext :: "fragment \<Rightarrow> string" where
  "rawtext f = substring (source f) (frag_start f) (frag_end f)"

datatype MarkerType = Content | Start | End | Inline

record marker =
  marker_type :: MarkerType
  marker_fragment :: fragment
  marker_name :: "string option"
  marker_attributes :: jsobject

definition Marker :: "MarkerType \<Rightarrow> fragment \<Rightarrow> string option \<Rightarrow> jsobject \<Rightarrow> marker" where
  "Marker t f n a =
     \<lparr>marker_type = t, marker_fragment = f, marker_name = n, marker_attributes = a\<rparr>"

section \<open>The tokenizer\<close>

text \<open>
  \<^verbatim>\<open>RE_TAG\<close> is built by \<^verbatim>\<open>new RegExp\<close>, with the flags \<^verbatim>\<open>mg\<close>, from four string
  literals joined without a separator; the text below is the one the constructor
  receives.  The first three literals are double-quoted: a doubled backslash gives one
  backslash, \<^verbatim>\<open>\r\<close> and \<^verbatim>\<open>\n\<close> give the characters CR and LF.  The fourth is a template
  literal: a doubled backslash gives one backslash again, and the singly escaped
  \<^verbatim>\<open>\d\<close>, \<^verbatim>\<open>\w\<close> and \<^verbatim>\<open>\-\<close> in its two bracket classes give the plain characters
  \<^verbatim>\<open>d\<close>, \<^verbatim>\<open>w\<close> and \<^verbatim>\<open>-\<close>: both classes are \<^verbatim>\<open>[dw_-]\<close>.  That literal opens eight
  groups and closes seven: the group \<^verbatim>\<open>qualname\<close> is left open.
\<close>

definition backslash :: "string \<Rightarrow> string" where
  "backslash s = CHR 0x5C # s"

definition RE_TAG_source :: string where
  "RE_TAG_source =
     concat
       [''(?<DOCTYPE>'' @ backslash ''<'' @ backslash ''!DOCTYPE'' @ backslash ''s+(?<doctype>[^''
          @ backslash ''>]+)'' @ backslash ''>'' @ [CHR 0x0D] @ ''?'' @ [CHR 0x0A] @ '')|'',
        ''(?<COMMENT>'' @ backslash ''<'' @ backslash ''!--(?<comment>(['' @ [CHR 0x0D, CHR 0x0A]
          @ '']|.)*?)--'' @ backslash ''>)|'',
        ''(?<CDATA><'' @ backslash ''!'' @ backslash ''[CDATA'' @ backslash ''[(?<cdata>([''
          @ [CHR 0x0D, CHR 0x0A] @ '']|.)*?)'' @ backslash '']'' @ backslash '']''
          @ backslash ''>)|'',
        backslash ''<(?<closing>/)?(?<qualname>((((?<ns>'' @ backslash ''w+[dw_-]*):)?''
          @ ''(?<name>[dw_-]+)))(?<attrs>'' @ backslash ''s+[^'' @ backslash ''>]*)?''
          @ backslash ''s*/?'' @ backslash ''>'']"

text \<open>
  The pattern is built when the module is loaded.  An exception of its construction is
  the result of the functions that read \<^verbatim>\<open>RE_TAG\<close>: \<^verbatim>\<open>iterMarkers\<close> and \<^verbatim>\<open>parse\<close>.
\<close>

definition RE_TAG :: "error + regex" where
  "RE_TAG = the (RegExp RE_TAG_source ''mg'')"

text \<open>
  \<^verbatim>\<open>Fragment.IterMatches(pattern, text)\<close>.  The generator keeps its own \<open>offset\<close>, from 0,
  but searches with \<^verbatim>\<open>pattern.exec\<close>, that is from the cursor the pattern object holds
  when the generator runs.  Each item is listed with the value the pattern's cursor has
  while the generator is suspended at that item's \<^verbatim>\<open>yield\<close>; the second component of the
  result is the cursor when the generator has finished.  A match that does not move the
  cursor makes the source's loop find it again for ever: the result is \<open>None\<close>.
\<close>

type_synonym match_fragment = "re_match option \<times> fragment \<times> nat"

function IterMatches_loop ::
    "regex \<Rightarrow> string \<Rightarrow> nat \<Rightarrow> nat \<Rightarrow> (match_fragment list \<times> nat) option" where
  "IterMatches_loop pattern text lastIndex offset =
     (case exec pattern text lastIndex of
        (None, lastIndex') \<Rightarrow>
          Some (if offset < length text
                then [(None, \<lparr>source = text, frag_start = int offset,
                               frag_end = int (length text)\<rparr>, lastIndex')]
                else [],
                lastIndex')
      | (Some m, lastIndex') \<Rightarrow>
          if lastIndex < lastIndex' then
            (case IterMatches_loop pattern text lastIndex'
                    (max (offset + 1) (match_index m + length (match_0 m))) of
               None \<Rightarrow> None
             | Some (items, final) \<Rightarrow>
                 Some ((if offset \<noteq> match_index m
                        then [(None, \<lparr>source = text, frag_start = int offset,
                                       frag_end = int (match_index m)\<rparr>, lastIndex')]
                        else [])
                       @ [(Some m, \<lparr>source = text, frag_start = int (match_index m),
                                    frag_end = int (match_index m + length (match_0 m))\<rparr>,
                           lastIndex')]
                       @ items,
                       final))
          else None)"
  by pat_completeness auto
termination
  by (relation "measure (\<lambda>(pattern, t, lastIndex, offset). Suc (length t) - lastIndex)")
    (auto simp: exec_def split: if_splits option.splits)

declare IterMatches_loop.simps [simp del]

definition IterMatches :: "regex \<Rightarrow> string \<Rightarrow> nat \<Rightarrow> (match_fragment list \<times> nat) option" where
  "IterMatches pattern text lastIndex =
     (if text = [] then Some ([], lastIndex) else IterMatches_loop pattern text lastIndex 0)"

text \<open>The markers \<^verbatim>\<open>iterMarkers\<close> yields for one item of \<^verbatim>\<open>IterMatches\<close>.\<close>

definition endsWith :: "string \<Rightarrow> string \<Rightarrow> bool" where
  "endsWith s suffix = (length suffix \<le> length s \<and> drop (length s - length suffix) s = suffix)"

definition markers_of :: "re_match option \<Rightarrow> fragment \<Rightarrow> marker list option" where
  "markers_of match fragment =
     (case match of
        None \<Rightarrow> Some [Marker Content fragment None empty_object]
      | Some m \<Rightarrow>
          if map_of (match_groups m) ''CDATA'' \<noteq> None then
            Some [Marker Start (slice fragment 0 (Some 9)) (Some ''!CDATA'') empty_object,
                  Marker Content (slice fragment 9 (Some (-3))) None empty_object,
                  Marker End (slice fragment (-3) None) (Some ''!CDATA'') empty_object]
          else if map_of (match_groups m) ''DOCTYPE'' \<noteq> None then
            Some [Marker Start (slice fragment 0 (Some 10)) (Some ''!DOCTYPE'') empty_object,
                  Marker Content (slice fragment 10 (Some (-2))) None empty_object,
                  Marker End (slice fragment (-2) None) (Some ''!DOCTYPE'') empty_object]
          else if map_of (match_groups m) ''COMMENT'' \<noteq> None then
            Some [Marker Start (slice fragment 0 (Some 4)) (Some ''!COMMENT'') empty_object,
                  Marker Content (slice fragment 4 (Some (-3))) None empty_object,
                  Marker End (slice fragment (-3) None) (Some ''!COMMENT'') empty_object]
          else
            (case (case map_of (match_groups m) ''attrs'' of
                     None \<Rightarrow> Some empty_object
                   | Some attrs \<Rightarrow> parseAttributes attrs empty_object) of
               None \<Rightarrow> None
             | Some attrs_map \<Rightarrow>
                 Some [Marker (if map_of (match_groups m) ''closing'' \<noteq> None then End
                               else if endsWith (match_0 m) ''/>'' then Inline
                               else Start)
                         fragment (map_of (match_groups m) ''qualname'') attrs_map]))"

text \<open>
  \<^verbatim>\<open>iterMarkers(text)\<close>, run from the cursor that \<^verbatim>\<open>RE_TAG\<close> holds.  With a pattern,
  the result is the markers, or \<open>None\<close> when the run does not complete (\<^verbatim>\<open>parseAttributes\<close>
  never returns: the \<^verbatim>\<open>RangeError\<close> abandons the generators where they stand), together
  with the cursor that the pattern is left with.
\<close>

fun markers_of_items :: "match_fragment list \<Rightarrow> nat \<Rightarrow> marker list option \<times> nat" where
  "markers_of_items [] final = (Some [], final)"
| "markers_of_items ((match, fragment, cursor) # items) final =
     (case markers_of match fragment of
        None \<Rightarrow> (None, cursor)
      | Some ms \<Rightarrow>
          (case markers_of_items items final of
             (None, c) \<Rightarrow> (None, c)
           | (Some ms', c) \<Rightarrow> (Some (ms @ ms'), c)))"

definition iterMarkers :: "string \<Rightarrow> nat \<Rightarrow> error + marker list option \<times> nat" where
  "iterMarkers text lastIndex =
     (case RE_TAG of
        Inl e \<Rightarrow> Inl e
      | Inr pattern \<Rightarrow>
          Inr (case IterMatches pattern text lastIndex of
                 None \<Rightarrow> (None, lastIndex)
               | Some (items, final) \<Rightarrow> markers_of_items items final))"

section \<open>The node model\<close>

text \<open>
  Nodes are objects with identity, linked both ways (\<^verbatim>\<open>childNodes\<close>, \<^verbatim>\<open>parentNode\<close>) and
  mutated in place: a heap maps each address to the fields of the object there, and a
  node is its address.  One record holds the fields of \<^verbatim>\<open>Node\<close> and of its subclasses:
  \<open>namespace\<close>, \<open>style\<close>, \<open>attributes\<close> (\<^verbatim>\<open>_attributes\<close>) and \<open>attributesNS\<close>
  (\<^verbatim>\<open>_attributesNS\<close>) are \<^verbatim>\<open>Element\<close>'s, \<open>content\<close> is set for a \<^verbatim>\<open>TemplateElement\<close>
  only, \<open>elements\<close> (\<^verbatim>\<open>_elements\<close>) is \<^verbatim>\<open>Document\<close>'s.  Fields that no operation
  modelled here reads are left out (event listeners, \<^verbatim>\<open>sheet\<close>, \<^verbatim>\<open>dataset\<close>,
  \<^verbatim>\<open>Document.body\<close>).

  A JavaScript \<^verbatim>\<open>Map\<close> is a list of entries in insertion order: \<^verbatim>\<open>set\<close> on a key it has
  keeps the entry's place.  An attribute node is stored in the maps of its element by
  value; the operations modelled create a fresh attribute node for every entry.
\<close>

type_synonym 'v jsmap = "(string \<times> 'v) list"

definition jsmap_get :: "'v jsmap \<Rightarrow> string \<Rightarrow> 'v option" where
  "jsmap_get m k = map_of m k"

definition jsmap_has :: "'v jsmap \<Rightarrow> string \<Rightarrow> bool" where
  "jsmap_has m k = (map_of m k \<noteq> None)"

fun jsmap_set :: "string \<Rightarrow> 'v \<Rightarrow> 'v jsmap \<Rightarrow> 'v jsmap" where
  "jsmap_set k v [] = [(k, v)]"
| "jsmap_set k v ((k', v') # m) = (if k' = k then (k, v) # m else (k', v') # jsmap_set k v m)"

definition jsmap_delete :: "string \<Rightarrow> 'v jsmap \<Rightarrow> 'v jsmap" where
  "jsmap_delete k m = filter (\<lambda>(k', v). k' \<noteq> k) m"

record attribute_node =
  attr_name :: string
  attr_namespace :: "string option"
  ownerElement :: "nat option"
  attr_value_field :: "string option"

record node =
  nodeName :: string
  nodeType :: nat
  childNodes :: "nat list"
  parentNode :: "nat option"
  data :: string
  namespace :: "string option"
  style :: "string jsmap"
  attributes :: "attribute_node jsmap"
  attributesNS :: "attribute_node jsmap jsmap"
  content :: "nat option"
  elements :: "nat list"

type_synonym heap = "nat \<Rightarrow> node"

abbreviation (input) ELEMENT_NODE :: nat where "ELEMENT_NODE \<equiv> 1"
abbreviation (input) ATTRIBUTE_NODE :: nat where "ATTRIBUTE_NODE \<equiv> 2"
abbreviation (input) TEXT_NODE :: nat where "TEXT_NODE \<equiv> 3"
abbreviation (input) COMMENT_NODE :: nat where "COMMENT_NODE \<equiv> 8"
abbreviation (input) DOCUMENT_NODE :: nat where "DOCUMENT_NODE \<equiv> 9"
abbreviation (input) DOCUMENT_FRAGMENT_NODE :: nat where "DOCUMENT_FRAGMENT_NODE \<equiv> 11"

text \<open>The constructors \<^verbatim>\<open>new Node(name, type)\<close>, \<^verbatim>\<open>new Element(name, namespace)\<close>, ...\<close>

definition new_Node :: "string \<Rightarrow> nat \<Rightarrow> node" where
  "new_Node name type =
     \<lparr>nodeName = name, nodeType = type, childNodes = [], parentNode = None, data = [],
      namespace = None, style = [], attributes = [], attributesNS = [], content = None,
      elements = []\<rparr>"

definition new_Element :: "string \<Rightarrow> string option \<Rightarrow> node" where
  "new_Element name ns = (new_Node name ELEMENT_NODE)\<lparr>namespace := ns\<rparr>"

definition new_TextNode :: "string \<Rightarrow> node" where
  "new_TextNode d = (new_Node ''#text'' TEXT_NODE)\<lparr>data := d\<rparr>"

definition new_Comment :: "string \<Rightarrow> node" where
  "new_Comment d = (new_Node ''#comment'' COMMENT_NODE)\<lparr>data := d\<rparr>"

definition new_DocumentFragment :: node where
  "new_DocumentFragment = new_Node ''document-fragment'' DOCUMENT_FRAGMENT_NODE"

definition new_Document :: node where
  "new_Document = new_Node ''#document'' DOCUMENT_NODE"

subsection \<open>Mutation\<close>

text \<open>\<^verbatim>\<open>array.indexOf(x)\<close>: the first index, \<open>None\<close> for -1.\<close>

fun index_of_from :: "nat \<Rightarrow> nat list \<Rightarrow> nat \<Rightarrow> nat option" where
  "index_of_from x [] i = None"
| "index_of_from x (y # ys) i = (if y = x then Some i else index_of_from x ys (Suc i))"

definition index_of :: "nat \<Rightarrow> nat list \<Rightarrow> nat option" where
  "index_of x xs = index_of_from x xs 0"

text \<open>\<^verbatim>\<open>this.removeChild(child)\<close>; the source returns \<^verbatim>\<open>this\<close>.\<close>

definition removeChild :: "heap \<Rightarrow> nat \<Rightarrow> nat \<Rightarrow> heap" where
  "removeChild h this child =
     (case index_of child (childNodes (h this)) of
        None \<Rightarrow> h
      | Some i \<Rightarrow>
          (let c = childNodes (h this) ! i;
               h1 = h(this := (h this)\<lparr>childNodes :=
                      take i (childNodes (h this)) @ drop (Suc i) (childNodes (h this))\<rparr>)
           in h1(c := (h1 c)\<lparr>parentNode := None\<rparr>)))"

text \<open>The branch of \<^verbatim>\<open>Node.appendChild\<close> for a node that is not a document fragment.\<close>

definition append_one :: "heap \<Rightarrow> nat \<Rightarrow> nat \<Rightarrow> heap" where
  "append_one h this node =
     (let h1 = (case parentNode (h node) of
                  None \<Rightarrow> h
                | Some p \<Rightarrow>
                    (let h' = removeChild h p node
                     in h'(node := (h' node)\<lparr>parentNode := None\<rparr>)));
          h2 = h1(this := (h1 this)\<lparr>childNodes := childNodes (h1 this) @ [node]\<rparr>)
      in h2(node := (h2 node)\<lparr>parentNode := Some this\<rparr>))"

text \<open>
  \<^verbatim>\<open>Node.appendChild\<close>.  For a document fragment the source copies the fragment's child
  list and appends each child in turn by a recursive call, which does the same for a
  child that is a fragment itself.  The nodes still to append are kept as a list here: a
  fragment at its head is replaced by its children as they are at that moment.  The
  recursion is not bounded (fragments that contain each other never end it): \<open>None\<close> is
  a call that does not return.
\<close>

partial_function (option) appendChild_each :: "heap \<Rightarrow> nat \<Rightarrow> nat list \<Rightarrow> heap option" where
  "appendChild_each h this nodes =
     (case nodes of
        [] \<Rightarrow> Some h
      | node # rest \<Rightarrow>
          if nodeType (h node) = DOCUMENT_FRAGMENT_NODE
          then appendChild_each h this (childNodes (h node) @ rest)
          else appendChild_each (append_one h this node) this rest)"

declare appendChild_each.simps [code]

definition Node_appendChild :: "heap \<Rightarrow> nat \<Rightarrow> nat \<Rightarrow> (heap \<times> nat) option" where
  "Node_appendChild h this node =
     (case appendChild_each h this [node] of None \<Rightarrow> None | Some h' \<Rightarrow> Some (h', this))"

text \<open>
  \<^verbatim>\<open>this.appendChild(node)\<close> as dispatched: \<^verbatim>\<open>TemplateElement\<close> overrides it to append
  to its \<^verbatim>\<open>content\<close> fragment.  Both return \<^verbatim>\<open>this\<close>.
\<close>

definition appendChild :: "heap \<Rightarrow> nat \<Rightarrow> nat \<Rightarrow> (heap \<times> nat) option" where
  "appendChild h this node =
     (case content (h this) of
        None \<Rightarrow> Node_appendChild h this node
      | Some c \<Rightarrow>
          (case Node_appendChild h c node of None \<Rightarrow> None | Some (h', r) \<Rightarrow> Some (h', this)))"

text \<open>The part of \<^verbatim>\<open>insertBefore\<close> after the fragment test, \<open>i\<close> the reference's index.\<close>

definition insert_one :: "heap \<Rightarrow> nat \<Rightarrow> nat \<Rightarrow> nat \<Rightarrow> heap" where
  "insert_one h this newNode i =
     (let h1 = (case parentNode (h newNode) of
                  None \<Rightarrow> h
                | Some p \<Rightarrow> removeChild h p newNode);
          h2 = h1(this := (h1 this)\<lparr>childNodes :=
                 take i (childNodes (h1 this)) @ [newNode] @ drop i (childNodes (h1 this))\<rparr>)
      in h2(newNode := (h2 newNode)\<lparr>parentNode := Some this\<rparr>))"

text \<open>
  \<^verbatim>\<open>insertBefore\<close> with a reference node, over the list of nodes still to insert as for
  \<^verbatim>\<open>appendChild\<close>.  Every call of the source, the recursive ones for the children of a
  fragment too, looks the reference up first and throws when it is not a child.  The
  result is the heap and the message of the \<^verbatim>\<open>Error\<close> thrown, if one was.
\<close>

definition reference_not_found :: string where
  "reference_not_found = ''NotFoundError: The reference node is not a child of this node''"

datatype ('r, 's) step = Return 'r | Again 's

definition insertBefore_step ::
    "heap \<Rightarrow> nat \<Rightarrow> nat \<Rightarrow> nat list \<Rightarrow> (heap \<times> string option, heap \<times> nat list) step" where
  "insertBefore_step h this referenceNode nodes =
     (case nodes of
        [] \<Rightarrow> Return (h, None)
      | newNode # rest \<Rightarrow>
          (case index_of referenceNode (childNodes (h this)) of
             None \<Rightarrow> Return (h, Some reference_not_found)
           | Some i \<Rightarrow>
               if nodeType (h newNode) = DOCUMENT_FRAGMENT_NODE
               then Again (h, childNodes (h newNode) @ rest)
               else Again (insert_one h this newNode i, rest)))"

partial_function (option) insertBefore_each ::
    "heap \<Rightarrow> nat \<Rightarrow> nat \<Rightarrow> nat list \<Rightarrow> (heap \<times> string option) option" where
  "insertBefore_each h this referenceNode nodes =
     (case insertBefore_step h this referenceNode nodes of
        Return r \<Rightarrow> Some r
      | Again (h', nodes') \<Rightarrow> insertBefore_each h' this referenceNode nodes')"

declare insertBefore_each.simps [code]

text \<open>
  \<^verbatim>\<open>this.insertBefore(newNode, referenceNode)\<close>: the heap it leaves, and the error it
  throws or the node it returns.  \<open>None\<close> as reference is \<^verbatim>\<open>null\<close>.
\<close>

definition insertBefore :: "heap \<Rightarrow> nat \<Rightarrow> nat \<Rightarrow> nat option \<Rightarrow> (heap \<times> (error + nat)) option" where
  "insertBefore h this newNode referenceNode =
     (case referenceNode of
        None \<Rightarrow>
          (case appendChild h this newNode of None \<Rightarrow> None | Some (h', r) \<Rightarrow> Some (h', Inr r))
      | Some ref \<Rightarrow>
          (case insertBefore_each h this ref [newNode] of
             None \<Rightarrow> None
           | Some (h', None) \<Rightarrow> Some (h', Inr newNode)
           | Some (h', Some msg) \<Rightarrow> Some (h', Inl (Error msg))))"

subsection \<open>Attributes\<close>

text \<open>\<^verbatim>\<open>if (this.namespace)\<close>: a namespace that is neither \<^verbatim>\<open>null\<close> nor the empty string.\<close>

definition truthy :: "string option \<Rightarrow> bool" where
  "truthy v = (case v of None \<Rightarrow> False | Some s \<Rightarrow> s \<noteq> [])"

text \<open>\<^verbatim>\<open>x || ""\<close> for a string that may be \<^verbatim>\<open>undefined\<close>.\<close>

definition or_empty :: "string option \<Rightarrow> string" where
  "or_empty v = (case v of None \<Rightarrow> [] | Some s \<Rightarrow> s)"

text \<open>The getter \<^verbatim>\<open>AttributeNode.value\<close>: it reads the owner's map, not the node.\<close>

definition attr_value :: "heap \<Rightarrow> attribute_node \<Rightarrow> string" where
  "attr_value h a =
     (case ownerElement a of
        None \<Rightarrow> or_empty (attr_value_field a)
      | Some owner \<Rightarrow>
          if truthy (attr_namespace a) then
            (case jsmap_get (attributesNS (h owner)) (or_empty (attr_namespace a)) of
               None \<Rightarrow> []
             | Some nsMap \<Rightarrow>
                 (case jsmap_get nsMap (attr_name a) of
                    None \<Rightarrow> []
                  | Some attr \<Rightarrow> or_empty (attr_value_field attr)))
          else
            (case jsmap_get (attributes (h owner)) (attr_name a) of
               None \<Rightarrow> []
             | Some attr \<Rightarrow> or_empty (attr_value_field attr)))"

text \<open>The setter \<^verbatim>\<open>AttributeNode.value\<close>: the heap and the attribute node it leaves.\<close>

definition set_attr_value :: "heap \<Rightarrow> attribute_node \<Rightarrow> string \<Rightarrow> heap \<times> attribute_node" where
  "set_attr_value h a v =
     (let a' = a\<lparr>attr_value_field := Some v\<rparr> in
      case ownerElement a of
        None \<Rightarrow> (h, a')
      | Some owner \<Rightarrow>
          if truthy (attr_namespace a) then
            (let ns = or_empty (attr_namespace a);
                 m0 = attributesNS (h owner);
                 m1 = (if jsmap_has m0 ns then m0 else jsmap_set ns [] m0);
                 m2 = (case jsmap_get m1 ns of
                         None \<Rightarrow> m1
                       | Some nsMap \<Rightarrow> jsmap_set ns (jsmap_set (attr_name a) a' nsMap) m1)
             in (h(owner := (h owner)\<lparr>attributesNS := m2\<rparr>), a'))
          else
            (h(owner := (h owner)\<lparr>attributes :=
                 jsmap_set (attr_name a) a' (attributes (h owner))\<rparr>), a'))"

definition new_AttributeNode :: "string \<Rightarrow> string option \<Rightarrow> nat option \<Rightarrow> attribute_node" where
  "new_AttributeNode name ns owner =
     \<lparr>attr_name = name, attr_namespace = ns, ownerElement = owner, attr_value_field = None\<rparr>"

definition setAttribute :: "heap \<Rightarrow> nat \<Rightarrow> string \<Rightarrow> string \<Rightarrow> heap" where
  "setAttribute h this name v =
     (case set_attr_value h (new_AttributeNode name None (Some this)) v of
        (h1, attrNode) \<Rightarrow>
          h1(this := (h1 this)\<lparr>attributes := jsmap_set name attrNode (attributes (h1 this))\<rparr>))"

definition setAttributeNS :: "heap \<Rightarrow> nat \<Rightarrow> string \<Rightarrow> string \<Rightarrow> string \<Rightarrow> heap" where
  "setAttributeNS h this ns name v =
     (let h0 = (if jsmap_has (attributesNS (h this)) ns then h
                else h(this := (h this)\<lparr>attributesNS := jsmap_set ns [] (attributesNS (h this))\<rparr>))
      in case set_attr_value h0 (new_AttributeNode name (Some ns) (Some this)) v of
           (h1, attrNode) \<Rightarrow>
             (case jsmap_get (attributesNS (h1 this)) ns of
                None \<Rightarrow> h1
              | Some nsMap \<Rightarrow>
                  h1(this := (h1 this)\<lparr>attributesNS :=
                       jsmap_set ns (jsmap_set name attrNode nsMap) (attributesNS (h1 this))\<rparr>)))"

definition hasAttribute :: "heap \<Rightarrow> nat \<Rightarrow> string \<Rightarrow> bool" where
  "hasAttribute h this name = jsmap_has (attributes (h this)) name"

definition hasAttributeNS :: "heap \<Rightarrow> nat \<Rightarrow> string \<Rightarrow> string \<Rightarrow> bool" where
  "hasAttributeNS h this ns name =
     (case jsmap_get (attributesNS (h this)) ns of
        None \<Rightarrow> False
      | Some nsMap \<Rightarrow> jsmap_has nsMap name)"

text \<open>\<^verbatim>\<open>getAttribute\<close>, \<^verbatim>\<open>getAttributeNS\<close> and \<^verbatim>\<open>getAttributeNode\<close>; \<open>None\<close> is \<^verbatim>\<open>null\<close>.\<close>

definition getAttribute :: "heap \<Rightarrow> nat \<Rightarrow> string \<Rightarrow> string option" where
  "getAttribute h this name =
     (case jsmap_get (attributes (h this)) name of
        None \<Rightarrow> None
      | Some attr \<Rightarrow> Some (attr_value h attr))"

definition getAttributeNS :: "heap \<Rightarrow> nat \<Rightarrow> string \<Rightarrow> string \<Rightarrow> string option" where
  "getAttributeNS h this ns name =
     (case jsmap_get (attributesNS (h this)) ns of
        None \<Rightarrow> None
      | Some nsMap \<Rightarrow>
          (case jsmap_get nsMap name of
             None \<Rightarrow> None
           | Some attr \<Rightarrow> Some (attr_value h attr)))"

definition getAttributeNode :: "heap \<Rightarrow> nat \<Rightarrow> string \<Rightarrow> attribute_node option" where
  "getAttributeNode h this name = jsmap_get (attributes (h this)) name"

text \<open>
  \<^verbatim>\<open>removeAttribute(name)\<close>: the name leaves the default map and every namespace's map,
  and a namespace whose map is empty after that leaves \<^verbatim>\<open>_attributesNS\<close>.
\<close>

definition removeAttribute :: "heap \<Rightarrow> nat \<Rightarrow> string \<Rightarrow> heap" where
  "removeAttribute h this name =
     (let e0 = h this;
          e1 = (if name = ''style'' then e0\<lparr>style := []\<rparr> else e0);
          e2 = e1\<lparr>attributes := jsmap_delete name (attributes e1)\<rparr>;
          e3 = e2\<lparr>attributesNS :=
                 filter (\<lambda>(ns, nsMap). nsMap \<noteq> [])
                   (map (\<lambda>(ns, nsMap). (ns, jsmap_delete name nsMap)) (attributesNS e2))\<rparr>
      in h(this := e3))"

section \<open>Entities\<close>

text \<open>
  \<^verbatim>\<open>RE_ENTITY\<close>, flags \<^verbatim>\<open>gi\<close>: the letters of a name match in both cases.  The
  table \<^verbatim>\<open>ENTITIES\<close> is a plain object, so a name is also looked up in
  \<^verbatim>\<open>Object.prototype\<close>, whose one all-lowercase property \<^verbatim>\<open>constructor\<close> is a function;
  \<^verbatim>\<open>join\<close> renders it as the engine does (the text here is V8's).
\<close>

definition is_letter :: "char \<Rightarrow> bool" where
  "is_letter c = (c \<in> set ''abcdefghijklmnopqrstuvwxyzABCDEFGHIJKLMNOPQRSTUVWXYZ'')"

definition RE_ENTITY :: regex where
  "RE_ENTITY =
     Seqs [Chr CHR ''&'',
           Alt (Seq (Chr CHR ''#'') (Group ''code'' (Plus (Cls is_digit))))
               (Group ''name'' (Plus (Cls is_letter))),
           Chr CHR '';'']"

text \<open>
  \<^verbatim>\<open>toLowerCase\<close> and \<^verbatim>\<open>toUpperCase\<close> on 8-bit code units: the letters A to Z and, for
  \<^verbatim>\<open>toLowerCase\<close>, the capital letters of Latin-1 (C0 to DE but D7).  \<^verbatim>\<open>toUpperCase\<close> is
  only applied to the ASCII names of the tables below.
\<close>

definition toLowerCase_char :: "char \<Rightarrow> char" where
  "toLowerCase_char c =
     (if (65 \<le> (of_char c :: nat) \<and> (of_char c :: nat) \<le> 90)
         \<or> (192 \<le> (of_char c :: nat) \<and> (of_char c :: nat) \<le> 222 \<and> (of_char c :: nat) \<noteq> 215)
      then char_of ((of_char c :: nat) + 32) else c)"

definition toLowerCase :: "string \<Rightarrow> string" where
  "toLowerCase s = map toLowerCase_char s"

definition toUpperCase_char :: "char \<Rightarrow> char" where
  "toUpperCase_char c =
     (if 97 \<le> (of_char c :: nat) \<and> (of_char c :: nat) \<le> 122
      then char_of ((of_char c :: nat) - 32) else c)"

definition toUpperCase :: "string \<Rightarrow> string" where
  "toUpperCase s = map toUpperCase_char s"

definition ENTITIES :: "string \<Rightarrow> string option" where
  "ENTITIES name =
     map_of [(''amp'', ''&''), (''lt'', ''<''), (''gt'', ''>''), (''quot'', [CHR 0x22]),
             (''apos'', [CHR 0x27]),
             (''constructor'', ''function Object() { [native code] }'')] name"

text \<open>
  \<^verbatim>\<open>String.fromCodePoint(c)\<close> for \<open>0 \<le> c \<le> 0x10ffff\<close>.  The character of a code point
  above 255 is none of the 8-bit strings of this model: the result is \<open>None\<close> there, and
  so is that of the functions below for a text with such a character reference.
\<close>

definition fromCodePoint :: "int \<Rightarrow> string option" where
  "fromCodePoint c = (if c \<le> 255 then Some [char_of (nat c)] else None)"

text \<open>What \<^verbatim>\<open>iexpandEntities\<close> yields for one match.\<close>

definition entity_text :: "re_match \<Rightarrow> string option" where
  "entity_text m =
     (case map_of (match_groups m) ''name'' of
        Some name \<Rightarrow>
          (case ENTITIES (toLowerCase name) of
             Some s \<Rightarrow> if s = [] then Some (match_0 m) else Some s
           | None \<Rightarrow> Some (match_0 m))
      | None \<Rightarrow>
          (let c = decimal_value (or_empty (map_of (match_groups m) ''code''))
           in if c < 0 \<or> c > 0x10ffff then Some (match_0 m) else fromCodePoint c))"

text \<open>
  The loop of \<^verbatim>\<open>iexpandEntities\<close>, the chunks joined.  It searches with the module-level
  \<^verbatim>\<open>RE_ENTITY\<close>, whose cursor is 0 whenever the loop starts: every run of the loop ends
  with the failed \<^verbatim>\<open>exec\<close> that resets it (\<open>pos\<close> is the source's \<^verbatim>\<open>o\<close>).  A match
  that does not move the cursor would be found for ever (\<open>None\<close>).
\<close>

function iexpandEntities_loop :: "string \<Rightarrow> nat \<Rightarrow> nat \<Rightarrow> string option" where
  "iexpandEntities_loop text lastIndex pos =
     (case exec RE_ENTITY text lastIndex of
        (None, lastIndex') \<Rightarrow> Some (if pos < length text then drop pos text else [])
      | (Some m, lastIndex') \<Rightarrow>
          if lastIndex < lastIndex' then
            (case (entity_text m,
                   iexpandEntities_loop text lastIndex' (match_index m + length (match_0 m))) of
               (Some chunk, Some rest) \<Rightarrow>
                 Some ((if match_index m > pos
                        then substring text (int pos) (int (match_index m)) else [])
                       @ chunk @ rest)
             | _ \<Rightarrow> None)
          else None)"
  by pat_completeness auto
termination
  by (relation "measure (\<lambda>(t, lastIndex, pos). Suc (length t) - lastIndex)")
    (auto simp: exec_def split: if_splits option.splits)

declare iexpandEntities_loop.simps [simp del]

definition expandEntities :: "string \<Rightarrow> string option" where
  "expandEntities text =
     (if text = [] then Some []
      else if length text < 3 then Some text
      else iexpandEntities_loop text 0 0)"

section \<open>The tree builder\<close>

text \<open>
  Objects are allocated at the next free address.  \<^verbatim>\<open>createElement\<close> makes a
  \<^verbatim>\<open>TemplateElement\<close> for the names \<^verbatim>\<open>template\<close> and \<^verbatim>\<open>TEMPLATE\<close> (its constructor
  allocates the \<^verbatim>\<open>content\<close> fragment) and registers every element in the document.
\<close>

record parse_state =
  ps_heap :: heap
  ps_next :: nat
  ps_stack :: "nat list"
  ps_current :: nat

definition alloc :: "parse_state \<Rightarrow> node \<Rightarrow> parse_state \<times> nat" where
  "alloc s n = (s\<lparr>ps_heap := (ps_heap s)(ps_next s := n), ps_next := Suc (ps_next s)\<rparr>, ps_next s)"

definition createTextNode :: "parse_state \<Rightarrow> string \<Rightarrow> parse_state \<times> nat" where
  "createTextNode s v = alloc s (new_TextNode v)"

definition createComment :: "parse_state \<Rightarrow> string \<Rightarrow> parse_state \<times> nat" where
  "createComment s v = alloc s (new_Comment v)"

definition register :: "parse_state \<Rightarrow> nat \<Rightarrow> nat \<Rightarrow> parse_state" where
  "register s doc element =
     s\<lparr>ps_heap := (ps_heap s)(doc := (ps_heap s doc)\<lparr>elements := elements (ps_heap s doc) @ [element]\<rparr>)\<rparr>"

definition createElement :: "parse_state \<Rightarrow> nat \<Rightarrow> string \<Rightarrow> parse_state \<times> nat" where
  "createElement s doc name =
     (if name = ''template'' \<or> name = ''TEMPLATE'' then
        (case alloc s (new_Element name None) of
           (s1, element) \<Rightarrow>
             (case alloc s1 new_DocumentFragment of
                (s2, fragment) \<Rightarrow>
                  (register
                     (s2\<lparr>ps_heap := (ps_heap s2)(element := (ps_heap s2 element)\<lparr>content := Some fragment\<rparr>)\<rparr>)
                     doc element, element)))
      else
        (case alloc s (new_Element name None) of
           (s1, element) \<Rightarrow> (register s1 doc element, element)))"

text \<open>
  The loop over \<^verbatim>\<open>Object.entries(marker.attributes)\<close>: a \<^verbatim>\<open>null\<close> value is stored as
  the empty string.
\<close>

definition copy_attributes :: "heap \<Rightarrow> nat \<Rightarrow> jsobject \<Rightarrow> heap" where
  "copy_attributes h element attrs =
     foldl (\<lambda>h' (k, v). setAttribute h' element k (or_empty v)) h (entries attrs)"

definition startsWith :: "string \<Rightarrow> string \<Rightarrow> bool" where
  "startsWith s prefix = (take (length prefix) s = prefix)"

text \<open>\<^verbatim>\<open>current.appendChild(node)\<close> on the heap of the state.\<close>

definition append_to_current :: "parse_state \<Rightarrow> nat \<Rightarrow> parse_state option" where
  "append_to_current s node =
     (case appendChild (ps_heap s) (ps_current s) node of
        None \<Rightarrow> None
      | Some (h', r) \<Rightarrow> Some (s\<lparr>ps_heap := h'\<rparr>))"

text \<open>
  One turn of the loop of \<^verbatim>\<open>parse\<close>, the \<^verbatim>\<open>switch\<close> on the marker's type.  A Start or
  Inline marker always carries a name.
\<close>

definition parse_marker :: "nat \<Rightarrow> parse_state \<Rightarrow> marker \<Rightarrow> parse_state option" where
  "parse_marker doc s marker =
     (case marker_type marker of
        Content \<Rightarrow>
          (case expandEntities (rawtext (marker_fragment marker)) of
             None \<Rightarrow> None
           | Some t \<Rightarrow>
               if trim t = [] then Some s
               else (case createTextNode s t of (s1, node) \<Rightarrow> append_to_current s1 node))
      | Start \<Rightarrow>
          (case marker_name marker of
             None \<Rightarrow> None
           | Some name \<Rightarrow>
               if startsWith name ''!'' then
                 (case createComment s (rawtext (marker_fragment marker)) of
                    (s1, comment) \<Rightarrow> append_to_current s1 comment)
               else
                 (case createElement s doc name of
                    (s1, element) \<Rightarrow>
                      (case append_to_current
                              (s1\<lparr>ps_heap := copy_attributes (ps_heap s1) element
                                                 (marker_attributes marker)\<rparr>)
                              element of
                         None \<Rightarrow> None
                       | Some s2 \<Rightarrow>
                           Some (s2\<lparr>ps_stack := ps_stack s2 @ [element],
                                    ps_current := element\<rparr>))))
      | End \<Rightarrow>
          if length (ps_stack s) > 1
          then Some (s\<lparr>ps_stack := butlast (ps_stack s),
                       ps_current := last (butlast (ps_stack s))\<rparr>)
          else Some s
      | Inline \<Rightarrow>
          (case marker_name marker of
             None \<Rightarrow> None
           | Some name \<Rightarrow>
               (case createElement s doc name of
                  (s1, element) \<Rightarrow>
                    append_to_current
                      (s1\<lparr>ps_heap := copy_attributes (ps_heap s1) element
                                         (marker_attributes marker)\<rparr>)
                      element)))"

fun parse_markers :: "nat \<Rightarrow> parse_state \<Rightarrow> marker list \<Rightarrow> parse_state option" where
  "parse_markers doc s [] = Some s"
| "parse_markers doc s (m # ms) =
     (case parse_marker doc s m of None \<Rightarrow> None | Some s' \<Rightarrow> parse_markers doc s' ms)"

text \<open>
  \<^verbatim>\<open>parse\<close> from the markers on: the heap with the document built and the document
  (address 0; a parse touches only the objects it creates, so it is run on a heap of its
  own), or \<open>None\<close> when the loop does not complete.
\<close>

definition blank_heap :: heap where
  "blank_heap = (\<lambda>_. new_Node [] 0)"

definition parse_loop :: "marker list \<Rightarrow> (heap \<times> nat) option" where
  "parse_loop markers =
     (case alloc \<lparr>ps_heap = blank_heap, ps_next = 0, ps_stack = [], ps_current = 0\<rparr> new_Document of
        (s0, doc) \<Rightarrow>
          (case parse_markers doc (s0\<lparr>ps_stack := [doc], ps_current := doc\<rparr>) markers of
             None \<Rightarrow> None
           | Some s \<Rightarrow> Some (ps_heap s, doc)))"

text \<open>
  \<^verbatim>\<open>parse(text)\<close>, run with \<^verbatim>\<open>RE_TAG\<close>'s cursor at \<open>lastIndex\<close>: the exception of the
  tokenizer, or the document (\<open>None\<close> when the call does not return one) and the cursor
  that the pattern is left with.
\<close>

definition parse_from :: "string \<Rightarrow> nat \<Rightarrow> error + (heap \<times> nat) option \<times> nat" where
  "parse_from text lastIndex =
     (case iterMarkers text lastIndex of
        Inl e \<Rightarrow> Inl e
      | Inr (None, c) \<Rightarrow> Inr (None, c)
      | Inr (Some markers, c) \<Rightarrow> Inr (parse_loop markers, c))"

text \<open>\<^verbatim>\<open>parse(text)\<close> with the cursor at 0, where a module that has just been loaded has it.\<close>

definition parse :: "string \<Rightarrow> error + (heap \<times> nat) option" where
  "parse text = (case parse_from text 0 of Inl e \<Rightarrow> Inl e | Inr (r, c) \<Rightarrow> Inr r)"

section \<open>All the matches of a pattern\<close>

text \<open>
  \<^verbatim>\<open>string.match(pattern)\<close> for a pattern with the \<^verbatim>\<open>g\<close> flag: the search starts at 0,
  an empty match moves the cursor on by one, and the result is the list of the matched
  texts (\<^verbatim>\<open>match[0]\<close> of each; the empty list stands for \<^verbatim>\<open>null\<close>).  The entries are
  strings: they carry no groups.
\<close>

lemma scan_index_ge: "scan r s p = Some m \<Longrightarrow> p \<le> match_index m"
proof (induction s arbitrary: p)
  case Nil
  then show ?case
    by (auto simp: match_at_def split: option.splits)
next
  case (Cons c cs)
  show ?case
  proof (cases "match_at r (c # cs) p")
    case None
    with Cons.prems have "scan r cs (Suc p) = Some m"
      by simp
    from Cons.IH [OF this] show ?thesis
      by simp
  next
    case (Some m')
    with Cons.prems show ?thesis
      by (auto simp: match_at_def split: option.splits)
  qed
qed

function match_all_from :: "regex \<Rightarrow> string \<Rightarrow> nat \<Rightarrow> string list" where
  "match_all_from pattern text lastIndex =
     (case exec pattern text lastIndex of
        (None, lastIndex') \<Rightarrow> []
      | (Some m, lastIndex') \<Rightarrow>
          match_0 m # match_all_from pattern text
                         (if match_0 m = [] then lastIndex' + 1 else lastIndex'))"
  by pat_completeness auto
termination
  apply (relation "measure (\<lambda>(pattern, t, lastIndex). Suc (length t) - lastIndex)")
    apply simp
   apply (auto simp: exec_def split: if_splits option.splits dest!: scan_index_ge)
  subgoal for t lastIndex m
    by (cases "match_0 m") auto
  done

declare match_all_from.simps [simp del]

definition match_all :: "regex \<Rightarrow> string \<Rightarrow> string list" where
  "match_all pattern text = match_all_from pattern text 0"

section \<open>Serialization\<close>

text \<open>\<^verbatim>\<open>tags(...)\<close>: each name, its lower case and its upper case; \<^verbatim>\<open>has\<close> is membership.\<close>

definition tags :: "string list \<Rightarrow> string list" where
  "tags names = concat (map (\<lambda>v. [v, toLowerCase v, toUpperCase v]) names)"

definition HTML_EMPTY :: "string list" where
  "HTML_EMPTY = tags [''area'', ''base'', ''basefont'', ''br'', ''col'', ''frame'', ''hr'', ''img'',
                      ''input'', ''isindex'', ''link'', ''meta'', ''param'']"

definition HTML_NOEMPTY :: "string list" where
  "HTML_NOEMPTY = tags [''slot'']"

text \<open>
  The options object: \<open>opt_comments\<close> and \<open>opt_doctype\<close> are false only for a key that
  is \<^verbatim>\<open>false\<close>, \<open>opt_html\<close> is true for a truthy \<^verbatim>\<open>html\<close>.
\<close>

record xml_options =
  opt_comments :: bool
  opt_doctype :: bool
  opt_html :: bool

definition default_options :: xml_options where
  "default_options = \<lparr>opt_comments = True, opt_doctype = True, opt_html = False\<rparr>"

text \<open>\<^verbatim>\<open>s.replace(/c/g, r)\<close> for a one-character pattern, and \<^verbatim>\<open>list.join(sep)\<close>.\<close>

definition replace_char :: "char \<Rightarrow> string \<Rightarrow> string \<Rightarrow> string" where
  "replace_char c r s = concat (map (\<lambda>x. if x = c then r else [x]) s)"

fun join :: "string \<Rightarrow> string list \<Rightarrow> string" where
  "join sep [] = []"
| "join sep [x] = x"
| "join sep (x # y # ys) = x @ sep @ join sep (y # ys)"

definition escape_text :: "string \<Rightarrow> string" where
  "escape_text d =
     replace_char CHR ''<'' ''&lt;'' (replace_char CHR ''>'' ''&gt;'' (replace_char CHR ''&'' ''&amp;'' d))"

text \<open>\<^verbatim>\<open>toCSSPropertyName\<close>: the matches of \<^verbatim>\<open>/[A-Za-z][a-z]*/g\<close>, in lower case, joined.\<close>

definition is_lower_letter :: "char \<Rightarrow> bool" where
  "is_lower_letter c = (c \<in> set ''abcdefghijklmnopqrstuvwxyz'')"

definition toCSSPropertyName :: "string \<Rightarrow> string" where
  "toCSSPropertyName name =
     join ''-'' (map toLowerCase
        (match_all (Seq (Cls is_letter) (Star (Cls is_lower_letter))) name))"

text \<open>
  The chunks \<^verbatim>\<open>iterXMLLines\<close> yields for an element before its closing: the name, the
  attributes of the default map but \<^verbatim>\<open>style\<close>, the merged style, the attributes with a
  namespace.
\<close>

definition element_name :: "node \<Rightarrow> string" where
  "element_name n =
     (if truthy (namespace n) then or_empty (namespace n) @ '':'' @ nodeName n else nodeName n)"

definition attribute_chunks :: "heap \<Rightarrow> node \<Rightarrow> string list" where
  "attribute_chunks h n =
     concat (map (\<lambda>(k, v). if k = ''style'' then []
                            else [[CHR 0x20] @ k @ [CHR ''='', CHR 0x22] @ attr_value h v @ [CHR 0x22]])
            (attributes n))"

definition style_chunks :: "heap \<Rightarrow> node \<Rightarrow> string list" where
  "style_chunks h n =
     (if jsmap_has (attributes n) ''style'' \<or> style n \<noteq> [] then
        (let styleValue0 = (case jsmap_get (attributes n) ''style'' of
                              None \<Rightarrow> []
                            | Some styleAttr \<Rightarrow> attr_value h styleAttr);
             inlineStyles = join '';'' (map (\<lambda>(k, v). toCSSPropertyName k @ '': '' @ v) (style n));
             styleValue = (if inlineStyles = [] then styleValue0
                           else if styleValue0 = [] then inlineStyles
                           else styleValue0 @ '';'' @ inlineStyles)
         in if styleValue = [] then []
            else [[CHR 0x20] @ ''style='' @ [CHR 0x22] @ styleValue @ [CHR 0x22]])
      else [])"

definition namespace_prefix :: "string \<Rightarrow> string option" where
  "namespace_prefix ns =
     (if ns = ''http://www.w3.org/1999/xlink'' then Some ''xlink''
      else if ns = ''http://www.w3.org/2000/svg'' then Some ''svg''
      else if ns = ''http://www.w3.org/XML/1998/namespace'' then Some ''xml''
      else None)"

definition attributeNS_chunks :: "heap \<Rightarrow> node \<Rightarrow> string list" where
  "attributeNS_chunks h n =
     concat (map (\<lambda>(ns, attrs).
               map (\<lambda>(k, v).
                      [CHR 0x20]
                      @ (case namespace_prefix ns of None \<Rightarrow> k | Some prefix \<Rightarrow> prefix @ '':'' @ k)
                      @ [CHR ''='', CHR 0x22] @ attr_value h v @ [CHR 0x22])
                   attrs)
            (attributesNS n))"

text \<open>\<^verbatim>\<open>empty\<close>: \<open>None\<close> is \<^verbatim>\<open>undefined\<close>.\<close>

definition html_empty :: "xml_options \<Rightarrow> string \<Rightarrow> bool option" where
  "html_empty options name =
     (if opt_html options then
        (if name \<in> set HTML_NOEMPTY then Some False
         else if name \<in> set HTML_EMPTY then Some True
         else None)
      else None)"

definition xml_prolog :: string where
  "xml_prolog = ''<?xml version='' @ [CHR 0x27] @ ''1.0'' @ [CHR 0x27] @ '' charset=''
     @ [CHR 0x27] @ ''utf-8'' @ [CHR 0x27] @ '' ?>'' @ [CHR 0x0A]"

text \<open>
  \<^verbatim>\<open>iterXMLLines\<close>: the chunks in the order they are yielded.  The recursion follows the
  child lists of the heap, which need not end (a node below itself); the first argument
  bounds its depth, and \<open>None\<close> says the bound was reached.
\<close>

fun iterXMLLines :: "nat \<Rightarrow> heap \<Rightarrow> xml_options \<Rightarrow> nat \<Rightarrow> string list option" where
  "iterXMLLines 0 h options this = None"
| "iterXMLLines (Suc fuel) h options this =
     (if nodeType (h this) = DOCUMENT_NODE then
        (case those (map (iterXMLLines fuel h options) (childNodes (h this))) of
           None \<Rightarrow> None
         | Some ls \<Rightarrow> Some ((if opt_doctype options then [xml_prolog] else []) @ concat ls))
      else if nodeType (h this) = DOCUMENT_FRAGMENT_NODE then
        (case those (map (iterXMLLines fuel h options) (childNodes (h this))) of
           None \<Rightarrow> None
         | Some ls \<Rightarrow> Some (concat ls))
      else if nodeType (h this) = ELEMENT_NODE then
        (let name = element_name (h this);
             empty = html_empty options name;
             opening = [''<'' @ name] @ attribute_chunks h (h this) @ style_chunks h (h this)
                       @ attributeNS_chunks h (h this)
         in if opt_html options \<and> empty = Some True then Some (opening @ ['' >''])
            else if childNodes (h this) = [] \<and> empty \<noteq> Some False then Some (opening @ ['' />''])
            else
              (case those (map (iterXMLLines fuel h options) (childNodes (h this))) of
                 None \<Rightarrow> None
               | Some ls \<Rightarrow> Some (opening @ [''>''] @ concat ls @ [''</'' @ name @ ''>''])))
      else if nodeType (h this) = TEXT_NODE then Some [escape_text (data (h this))]
      else if nodeType (h this) = COMMENT_NODE then
        Some (if opt_comments options
              then [''<!--'' @ replace_char CHR ''>'' ''&gt;'' (data (h this)) @ ''-->'']
              else [])
      else Some [])"

definition toXML :: "nat \<Rightarrow> heap \<Rightarrow> xml_options \<Rightarrow> nat \<Rightarrow> string option" where
  "toXML fuel h options this = map_option concat (iterXMLLines fuel h options this)"

definition toHTML :: "nat \<Rightarrow> heap \<Rightarrow> xml_options \<Rightarrow> nat \<Rightarrow> string option" where
  "toHTML fuel h options this = map_option concat (iterXMLLines fuel h (options\<lparr>opt_html := True\<rparr>) this)"

section \<open>Selectors\<close>

text \<open>\<^verbatim>\<open>RE_QUERY\<close>, a regular expression literal: here \<^verbatim>\<open>\w\<close> and \<^verbatim>\<open>\d\<close> are classes.\<close>

definition is_query_name :: "char \<Rightarrow> bool" where
  "is_query_name c = (is_word c \<or> is_digit c \<or> c = CHR ''_'' \<or> c = CHR ''-'')"

definition is_dot_or_hash :: "char \<Rightarrow> bool" where
  "is_dot_or_hash c = (c = CHR ''.'' \<or> c = CHR ''#'')"

definition not_rbracket :: "char \<Rightarrow> bool" where
  "not_rbracket c = (c \<noteq> CHR '']'')"

definition RE_QUERY :: regex where
  "RE_QUERY =
     Alt (Seq (Group ''type'' (Opt (Cls is_dot_or_hash))) (Group ''name'' (Plus (Cls is_query_name))))
         (Seqs [Chr CHR ''['', Group ''attributes'' (Plus (Cls not_rbracket)), Chr CHR '']''])"

text \<open>
  A selector; \<open>sel_attributes\<close> is the \<^verbatim>\<open>name\<close> of its \<^verbatim>\<open>attributes\<close> object, the only
  part of it that is read, or \<open>None\<close> for \<^verbatim>\<open>null\<close>.
\<close>

record selector =
  sel_type :: string
  sel_name :: string
  sel_attributes :: "string option"

text \<open>
  \<^verbatim>\<open>new Query(query)\<close>.  The constructor maps over \<^verbatim>\<open>query.match(RE_QUERY)\<close>, whose
  entries are the matched strings: \<^verbatim>\<open>match.groups\<close> is \<^verbatim>\<open>undefined\<close> for each of them,
  so every selector gets the type \<^verbatim>\<open>""\<close>, the name \<^verbatim>\<open>""\<close> and no attributes.
\<close>

definition Query :: "string \<Rightarrow> selector list" where
  "Query query =
     map (\<lambda>match. \<lparr>sel_type = [], sel_name = [], sel_attributes = None\<rparr>) (match_all RE_QUERY query)"

text \<open>\<^verbatim>\<open>s.split(" ")\<close> and \<^verbatim>\<open>classList.contains(value)\<close>.\<close>

fun split_char :: "char \<Rightarrow> string \<Rightarrow> string list" where
  "split_char sep [] = [[]]"
| "split_char sep (c # cs) =
     (if c = sep then [] # split_char sep cs
      else (case split_char sep cs of [] \<Rightarrow> [[c]] | p # ps \<Rightarrow> (c # p) # ps))"

definition classList_contains :: "heap \<Rightarrow> nat \<Rightarrow> string \<Rightarrow> bool" where
  "classList_contains h element v =
     (v \<in> set (split_char CHR 0x20 (or_empty (getAttribute h element ''class''))))"

text \<open>
  \<^verbatim>\<open>Query.match(node)\<close>: the loop over the selectors, from the selector at hand on.
  The message of the error for an unknown type is cut after the type.
\<close>

fun Query_match :: "heap \<Rightarrow> selector list \<Rightarrow> nat \<Rightarrow> error + bool" where
  "Query_match h [] node = Inr True"
| "Query_match h (sel # rest) node =
     (if nodeType (h node) = ELEMENT_NODE then
        (if sel_type sel = [] then
           (if nodeName (h node) \<noteq> sel_name sel
               \<and> toLowerCase (nodeName (h node)) \<noteq> toLowerCase (sel_name sel)
            then Inr False else Query_match h rest node)
         else if sel_type sel = ''.'' then
           (if classList_contains h node (sel_name sel) then Query_match h rest node
            else Inr False)
         else if sel_type sel = ''#'' then
           (if getAttribute h node ''id'' = Some (sel_name sel) then Query_match h rest node
            else Inr False)
         else if sel_type sel = ''@'' then
           (case sel_attributes sel of
              None \<Rightarrow> Inr True
            | Some name \<Rightarrow> if hasAttribute h node name then Inr True else Inr False)
         else Inl (Error (''Unsupported type: '' @ sel_type sel)))
      else Inr False)"

text \<open>
  \<^verbatim>\<open>iterWalk\<close> with a callback that never returns \<^verbatim>\<open>false\<close>, as the one of
  \<^verbatim>\<open>querySelectorAll\<close>: the nodes in the order the callback sees them.  The depth is
  bounded as for \<^verbatim>\<open>iterXMLLines\<close>.
\<close>

fun iterWalk :: "nat \<Rightarrow> heap \<Rightarrow> nat \<Rightarrow> nat list option" where
  "iterWalk 0 h this = None"
| "iterWalk (Suc fuel) h this =
     (case those (map (iterWalk fuel h) (childNodes (h this))) of
        None \<Rightarrow> None
      | Some ls \<Rightarrow> Some (this # concat ls))"

fun matched_of :: "heap \<Rightarrow> selector list \<Rightarrow> nat list \<Rightarrow> error + nat list" where
  "matched_of h q [] = Inr []"
| "matched_of h q (n # ns) =
     (case Query_match h q n of
        Inl e \<Rightarrow> Inl e
      | Inr b \<Rightarrow>
          (case matched_of h q ns of
             Inl e \<Rightarrow> Inl e
           | Inr r \<Rightarrow> Inr (if b then n # r else r)))"

text \<open>The loop \<^verbatim>\<open>for (const n of scope)\<close>: the nodes matched below the nodes of the scope.\<close>

fun match_scope :: "nat \<Rightarrow> heap \<Rightarrow> selector list \<Rightarrow> nat list \<Rightarrow> (error + nat list) option" where
  "match_scope fuel h q [] = Some (Inr [])"
| "match_scope fuel h q (n # ns) =
     (case iterWalk fuel h n of
        None \<Rightarrow> None
      | Some visited \<Rightarrow>
          (case matched_of h q visited of
             Inl e \<Rightarrow> Some (Inl e)
           | Inr matched \<Rightarrow>
               (case match_scope fuel h q ns of
                  None \<Rightarrow> None
                | Some (Inl e) \<Rightarrow> Some (Inl e)
                | Some (Inr others) \<Rightarrow> Some (Inr (matched @ others)))))"

text \<open>\<^verbatim>\<open>query.split(/\s+/)\<close>: the pieces between the runs of white space.\<close>

function split_space :: "string \<Rightarrow> string list" where
  "split_space [] = [[]]"
| "split_space (c # cs) =
     (if is_space c then [] # split_space (dropWhile is_space cs)
      else (case split_space cs of [] \<Rightarrow> [[c]] | p # ps \<Rightarrow> (c # p) # ps))"
  by pat_completeness auto
termination
  by (relation "measure length") (auto simp: length_dropWhile_le less_Suc_eq_le)

text \<open>
  \<^verbatim>\<open>querySelectorAll(query)\<close>: the loop over the pieces of the query.  For every
  non-empty piece \<open>qs\<close> the source builds \<^verbatim>\<open>new Query(query)\<close>, from the whole query.
\<close>

fun querySelectorAll_steps ::
    "nat \<Rightarrow> heap \<Rightarrow> string \<Rightarrow> string list \<Rightarrow> nat list \<Rightarrow> (error + nat list) option" where
  "querySelectorAll_steps fuel h query [] scope = Some (Inr (if query = [] then [] else scope))"
| "querySelectorAll_steps fuel h query (qs # rest) scope =
     (case (if qs = [] then Some (Inr scope) else match_scope fuel h (Query query) scope) of
        None \<Rightarrow> None
      | Some (Inl e) \<Rightarrow> Some (Inl e)
      | Some (Inr scope') \<Rightarrow>
          if scope' = [] then Some (Inr scope')
          else querySelectorAll_steps fuel h query rest scope')"

definition querySelectorAll :: "nat \<Rightarrow> heap \<Rightarrow> nat \<Rightarrow> string \<Rightarrow> (error + nat list) option" where
  "querySelectorAll fuel h this query =
     querySelectorAll_steps fuel h query (split_space query) [this]"

text \<open>\<^verbatim>\<open>querySelector(query)\<close>: the first node of the list, \<open>None\<close> for \<^verbatim>\<open>undefined\<close>.\<close>

definition querySelector :: "nat \<Rightarrow> heap \<Rightarrow> nat \<Rightarrow> string \<Rightarrow> (error + nat option) option" where
  "querySelector fuel h this query =
     (case querySelectorAll fuel h this query of
        None \<Rightarrow> None
      | Some (Inl e) \<Rightarrow> Some (Inl e)
      | Some (Inr []) \<Rightarrow> Some (Inr None)
      | Some (Inr (n # ns)) \<Rightarrow> Some (Inr (Some n)))"

section \<open>Notions used to state and prove the properties\<close>

text \<open>
  Attribute texts whose last value has no end: a name without \<^verbatim>\<open>=\<close> and white space,
  the \<^verbatim>\<open>=\<close>, a first character \<open>c\<close> of the value and the rest \<open>v\<close> of the text, in
  which the character that would end the value does not occur: the quote \<open>c\<close> itself
  for a quoted value, the space for an unquoted one.
\<close>

definition sep_free :: "string \<Rightarrow> bool" where
  "sep_free n = list_all (\<lambda>c. c \<noteq> CHR ''='' \<and> \<not> is_space c) n"

definition no_value_end :: "char \<Rightarrow> string \<Rightarrow> bool" where
  "no_value_end c v =
     (if c = CHR 0x27 then CHR 0x27 \<notin> set v
      else if c = CHR 0x22 then CHR 0x22 \<notin> set v
      else CHR 0x20 \<notin> set v)"

text \<open>The least number of characters a match of a pattern consumes.\<close>

fun minlen :: "regex \<Rightarrow> nat" where
  "minlen Eps = 0"
| "minlen (Chr c) = 1"
| "minlen (Cls P) = 1"
| "minlen (Seq r1 r2) = minlen r1 + minlen r2"
| "minlen (Alt r1 r2) = min (minlen r1) (minlen r2)"
| "minlen (Opt r) = 0"
| "minlen (Star r) = 0"
| "minlen (LazyStar r) = 0"
| "minlen (Group n r) = minlen r"

text \<open>
  A heap is well linked when no child list holds a node twice and every node in a child
  list has that parent as its \<^verbatim>\<open>parentNode\<close>: the tree is single-parented.
\<close>

definition well_linked :: "heap \<Rightarrow> bool" where
  "well_linked h =
     (\<forall>p. distinct (childNodes (h p))
          \<and> list_all (\<lambda>c. parentNode (h c) = Some p) (childNodes (h p)))"

text \<open>The first statement of \<^verbatim>\<open>appendChild\<close>'s second branch: the node leaves its parent.\<close>

definition detach :: "heap \<Rightarrow> nat \<Rightarrow> heap" where
  "detach h node =
     (case parentNode (h node) of
        None \<Rightarrow> h
      | Some p \<Rightarrow>
          (let h' = removeChild h p node in h'(node := (h' node)\<lparr>parentNode := None\<rparr>)))"

text \<open>
  The structure of the tree below a node, which is what two parses are compared by: for
  each node its type, its name, the attributes of its default map with their values,
  its data and its children.  The depth is bounded as for \<^verbatim>\<open>iterXMLLines\<close>.
\<close>

datatype tree = Tree nat string "(string \<times> string) list" string "tree list"

fun tree_of :: "nat \<Rightarrow> heap \<Rightarrow> nat \<Rightarrow> tree option" where
  "tree_of 0 h this = None"
| "tree_of (Suc fuel) h this =
     (case those (map (tree_of fuel h) (childNodes (h this))) of
        None \<Rightarrow> None
      | Some ts \<Rightarrow>
          Some (Tree (nodeType (h this)) (nodeName (h this))
                  (map (\<lambda>(k, v). (k, attr_value h v)) (attributes (h this)))
                  (data (h this)) ts))"

text \<open>
  \<^verbatim>\<open>parse(toXML(parse(M)))\<close>, the serialization made with the default options: the
  exception of either parse, or the document of the second (\<open>None\<close> when a call does not
  return).
\<close>

definition reparse :: "nat \<Rightarrow> string \<Rightarrow> error + (heap \<times> nat) option" where
  "reparse fuel M =
     (case parse M of
        Inl e \<Rightarrow> Inl e
      | Inr None \<Rightarrow> Inr None
      | Inr (Some (h, doc)) \<Rightarrow>
          (case toXML fuel h default_options doc of
             None \<Rightarrow> Inr None
           | Some xml \<Rightarrow> parse xml))"

text \<open>
  The markers that \<^verbatim>\<open>iterMarkers\<close> makes of a match of the alternative \<^verbatim>\<open>COMMENT\<close> that
  spans the positions \<open>i\<close> to \<open>j\<close> of a text, and the markers of a start tag, of a
  self-closed tag and of an end tag without attributes.
\<close>

definition comment_markers :: "string \<Rightarrow> nat \<Rightarrow> nat \<Rightarrow> marker list option" where
  "comment_markers text i j =
     markers_of
       (Some \<lparr>match_index = i, match_0 = take (j - i) (drop i text),
              match_groups = [(''COMMENT'', take (j - i) (drop i text)),
                              (''comment'', take (j - i - 7) (drop (i + 4) text))]\<rparr>)
       \<lparr>source = text, frag_start = int i, frag_end = int j\<rparr>"

definition tag_marker :: "MarkerType \<Rightarrow> string \<Rightarrow> string \<Rightarrow> nat \<Rightarrow> nat \<Rightarrow> marker" where
  "tag_marker t name text i j =
     Marker t \<lparr>source = text, frag_start = int i, frag_end = int j\<rparr> (Some name) empty_object"

text \<open>
  Two documents built with the document's factories, \<^verbatim>\<open>setAttribute\<close> and
  \<^verbatim>\<open>appendChild\<close>: the trees that the markup \<^verbatim>\<open><img src='x.png'/>\<close> and
  \<^verbatim>\<open><div class="a b"><span id="x"/></div>\<close> denote.  The document is at address 0, the
  elements follow in the order they are created.
\<close>

definition new_document_state :: parse_state where
  "new_document_state =
     fst (alloc \<lparr>ps_heap = blank_heap, ps_next = 0, ps_stack = [], ps_current = 0\<rparr> new_Document)"

definition img_document :: "heap option" where
  "img_document =
     (case createElement new_document_state 0 ''img'' of
        (s1, img) \<Rightarrow>
          map_option fst (appendChild (setAttribute (ps_heap s1) img ''src'' ''x.png'') 0 img))"

definition div_span_document :: "heap option" where
  "div_span_document =
     (case createElement new_document_state 0 ''div'' of
        (s1, e1) \<Rightarrow>
          (case createElement s1 0 ''span'' of
             (s2, e2) \<Rightarrow>
               (case appendChild
                       (setAttribute (setAttribute (ps_heap s2) e1 ''class'' ''a b'') e2 ''id'' ''x'')
                       e1 e2 of
                  None \<Rightarrow> None
                | Some (h, r) \<Rightarrow> map_option fst (appendChild h 0 e1))))"


section \<open>Properties of the attribute parser\<close>

lemma parseAttributes_example:
  \<open>parseAttributes ''a="1" b c="x y" d='' empty_object
     = Some \<lparr>entries = [(''a'', Some ''1''), (''b'', None), (''c'', Some ''x y''), (''d'', Some [])],
             has_proto = True\<rparr>\<close>
  by code_simp

text \<open>
  A text on which every activation calls \<^verbatim>\<open>parseAttributes\<close> again with the same text
  never returns.
\<close>

lemma parseAttributes_same_text:
  assumes "parseAttributes t a = Some y"
  shows "\<exists>a'. snd (parseAttributes_step t a') \<noteq> Some t"
proof (rule parseAttributes.raw_induct
    [where P = "\<lambda>t a y. \<exists>a'. snd (parseAttributes_step t a') \<noteq> Some t", OF _ assms])
  fix f :: "string \<Rightarrow> jsobject \<Rightarrow> jsobject option" and t a y
  assume IH: "\<And>t a y. f t a = Some y \<Longrightarrow> \<exists>a'. snd (parseAttributes_step t a') \<noteq> Some t"
    and eq: "(if t = [] then Some a
              else case parseAttributes_step t a of
                     (a', None) \<Rightarrow> Some a'
                   | (a', Some rest) \<Rightarrow> f rest a') = Some y"
  show "\<exists>a'. snd (parseAttributes_step t a') \<noteq> Some t"
  proof (rule ccontr)
    assume "\<not> (\<exists>a'. snd (parseAttributes_step t a') \<noteq> Some t)"
    then have same: "snd (parseAttributes_step t a') = Some t" for a'
      by simp
    obtain a' where s: "parseAttributes_step t a = (a', Some t)"
      using same [of a] by (cases "parseAttributes_step t a") auto
    have "t \<noteq> []"
      using same [of a] by (auto simp: parseAttributes_step_def match_RE_ATTR_SEP_def
          indexOf_def trim_def)
    with eq s have "f t a' = Some y"
      by simp
    from IH [OF this] same show False
      by simp
  qed
qed

lemma parseAttributes_diverges:
  assumes "\<And>a'. snd (parseAttributes_step t a') = Some t"
  shows "parseAttributes t a = None"
proof (cases "parseAttributes t a")
  case None
  then show ?thesis .
next
  case (Some y)
  from parseAttributes_same_text [OF this] assms show ?thesis
    by simp
qed

lemma parseAttributes_step_unquoted_last:
  "snd (parseAttributes_step ''a=1'' acc) = Some ''a=1''"
  by (simp add: parseAttributes_step_def match_RE_ATTR_SEP_def is_space_def indexOf_def
      substring_from_def substring_def trim_def Let_def)

lemma parseAttributes_step_unclosed_quote:
  \<open>snd (parseAttributes_step ''a="foo'' acc) = Some ''a="foo''\<close>
  by (simp add: parseAttributes_step_def match_RE_ATTR_SEP_def is_space_def indexOf_def
      substring_from_def substring_def trim_def Let_def)

lemma parseAttributes_step_unclosed_quote_value:
  \<open>fst (parseAttributes_step ''a="foo'' empty_object)
     = \<lparr>entries = [(''a'', Some ''fo'')], has_proto = True\<rparr>\<close>
  by code_simp

text \<open>
  The same holds for every text whose last value has no end: the activation calls
  \<^verbatim>\<open>parseAttributes\<close> with the text trimmed, and the trimmed text with itself.
\<close>

lemma match_RE_ATTR_SEP_from_name:
  "sep_free n \<Longrightarrow> match_RE_ATTR_SEP_from (n @ CHR ''='' # xs) k = Some (k + length n, CHR ''='')"
  by (induction n arbitrary: k) (auto simp: sep_free_def)

lemma index_in_absent: "c \<notin> set xs \<Longrightarrow> index_in c xs k = -1"
  by (induction xs arbitrary: k) auto

lemma substring_whole: "substring t 0 (int (length t)) = t"
  by (simp add: substring_def)

lemma step_without_end:
  assumes "match_RE_ATTR_SEP t = Some (i, CHR ''='')"
    and "\<not> i + 1 \<ge> length t"
    and "(if t ! (i + 1) = CHR 0x27 then indexOf t CHR 0x27 (int i + 2)
          else if t ! (i + 1) = CHR 0x22 then indexOf t CHR 0x22 (int i + 2)
          else indexOf t CHR 0x20 (int i)) = -1"
  shows "snd (parseAttributes_step t a) = Some (trim t)"
proof -
  have "snd (parseAttributes_step t a) = Some (trim (substring_from t (-1 + 1)))"
    by (simp only: parseAttributes_step_def assms option.case prod.case if_True if_False
        refl Let_def snd_conv)
  then show ?thesis
    by (simp add: substring_from_def substring_whole)
qed

lemma step_value_without_end:
  assumes "sep_free n" "\<not> is_space c" "no_value_end c v"
  shows "snd (parseAttributes_step (n @ CHR ''='' # c # v) a) = Some (trim (n @ CHR ''='' # c # v))"
proof (rule step_without_end [where i = "length n"])
  let ?t = "n @ CHR ''='' # c # v"
  show "match_RE_ATTR_SEP ?t = Some (length n, CHR ''='')"
    using match_RE_ATTR_SEP_from_name [OF assms(1), of "c # v" 0] by (simp add: match_RE_ATTR_SEP_def)
  show "\<not> length n + 1 \<ge> length ?t"
    by simp
  have chr: "?t ! (length n + 1) = c"
    by (simp add: nth_append)
  have c20: "c \<noteq> CHR 0x20"
    using assms(2) by (auto simp: is_space_def)
  have d2: "drop (length n + 2) ?t = v" and d0: "drop (length n) ?t = CHR ''='' # c # v"
    by simp_all
  have i2: "indexOf ?t q (int (length n) + 2) = -1" if "q \<notin> set v" for q
  proof -
    have "nat (max 0 (int (length n) + 2)) = length n + 2" by simp
    then show ?thesis
      unfolding indexOf_def Let_def by (simp only: d2 index_in_absent [OF that])
  qed
  have i0: "indexOf ?t CHR 0x20 (int (length n)) = -1" if "CHR 0x20 \<notin> set v"
  proof -
    have "nat (max 0 (int (length n))) = length n" by simp
    moreover have "CHR 0x20 \<notin> set (CHR ''='' # c # v)" using that c20 by simp
    then have "index_in CHR 0x20 (CHR ''='' # c # v) (length n) = -1"
      by (rule index_in_absent)
    ultimately show ?thesis
      unfolding indexOf_def Let_def by (simp only: d0)
  qed
  have main: "(if c = CHR 0x27 then indexOf ?t CHR 0x27 (int (length n) + 2)
          else if c = CHR 0x22 then indexOf ?t CHR 0x22 (int (length n) + 2)
          else indexOf ?t CHR 0x20 (int (length n))) = -1"
  proof (cases "c = CHR 0x27")
    case True
    with assms(3) have "CHR 0x27 \<notin> set v"
      by (simp add: no_value_end_def)
    from i2 [OF this] True show ?thesis
      by simp
  next
    case False
    note c27 = this
    show ?thesis
    proof (cases "c = CHR 0x22")
      case True
      with assms(3) have "CHR 0x22 \<notin> set v"
        by (simp add: no_value_end_def)
      from i2 [OF this] c27 True show ?thesis
        by simp
    next
      case False
      with assms(3) c27 have "CHR 0x20 \<notin> set v"
        by (simp add: no_value_end_def)
      from i0 [OF this] c27 False show ?thesis
        by simp
    qed
  qed
  show "(if ?t ! (length n + 1) = CHR 0x27 then indexOf ?t CHR 0x27 (int (length n) + 2)
          else if ?t ! (length n + 1) = CHR 0x22 then indexOf ?t CHR 0x22 (int (length n) + 2)
          else indexOf ?t CHR 0x20 (int (length n))) = -1"
    unfolding chr by (rule main)
qed

lemma trim_value_without_end:
  assumes "sep_free n" "\<not> is_space c"
  shows "trim (n @ CHR ''='' # c # v) = n @ CHR ''='' # c # rev (dropWhile is_space (rev v))"
proof -
  have h: "dropWhile is_space (n @ CHR ''='' # c # v) = n @ CHR ''='' # c # v"
    using assms(1) by (cases n) (auto simp: sep_free_def is_space_def)
  have "dropWhile is_space (rev v @ c # CHR ''='' # rev n)
          = dropWhile is_space (rev v) @ c # CHR ''='' # rev n"
    using assms(2) by (auto simp: dropWhile_append)
  then show ?thesis
    by (simp add: trim_def h)
qed

lemma no_value_end_trimmed:
  "no_value_end c v \<Longrightarrow> no_value_end c (rev (dropWhile is_space (rev v)))"
  using set_dropWhileD [of _ is_space "rev v"] by (auto simp: no_value_end_def)

lemma parseAttributes_value_without_end:
  assumes "sep_free n" "\<not> is_space c" "no_value_end c v"
  shows "parseAttributes (n @ CHR ''='' # c # v) a = None"
proof -
  let ?t = "n @ CHR ''='' # c # v"
  let ?v' = "rev (dropWhile is_space (rev v))"
  let ?t' = "n @ CHR ''='' # c # ?v'"
  have t': "trim ?t = ?t'"
    by (rule trim_value_without_end [OF assms(1,2)])
  have idem: "trim ?t' = ?t'"
    using trim_value_without_end [OF assms(1,2), of ?v'] by simp
  have "snd (parseAttributes_step ?t' a') = Some ?t'" for a'
    using step_value_without_end [OF assms(1,2) no_value_end_trimmed [OF assms(3)], of a'] idem
    by simp
  then have div: "parseAttributes ?t' a' = None" for a'
    by (rule parseAttributes_diverges)
  obtain a1 where s: "parseAttributes_step ?t a = (a1, Some ?t')"
    using step_value_without_end [OF assms, of a] t'
    by (cases "parseAttributes_step ?t a") auto
  show ?thesis
    by (subst parseAttributes.simps) (simp add: s div)
qed


text \<open>
  Claim C1.  The claim: for every input string \<^verbatim>\<open>parseAttributes\<close> terminates and returns
  a mapping without raising, in particular on an unquoted last value such as \<^verbatim>\<open>a=1\<close>.
  The code: when no space follows the unquoted value, \<^verbatim>\<open>end\<close> is -1 and the recursive
  call is made on \<^verbatim>\<open>text.substring(end + 1).trim()\<close>, the whole text again.  For every
  name without \<^verbatim>\<open>=\<close> and white space and every unquoted value without a space that
  does not begin with white space, the call never returns, whatever the \<open>attributes\<close>
  object holds.
\<close>

theorem C1_parseAttributes_unquoted_last_value_never_returns:
  assumes "sep_free name" and "\<not> is_space c" and "c \<noteq> CHR 0x27" and "c \<noteq> CHR 0x22"
    and "CHR 0x20 \<notin> set v"
  shows "parseAttributes (name @ CHR ''='' # c # v) acc = None"
  using assms by (intro parseAttributes_value_without_end) (simp_all add: no_value_end_def)

theorem C1_parseAttributes_unquoted_last_value_never_returns_witness:
  "sep_free ''a'' \<and> \<not> is_space CHR ''1'' \<and> CHR ''1'' \<noteq> CHR 0x27 \<and> CHR ''1'' \<noteq> CHR 0x22
   \<and> CHR 0x20 \<notin> set [] \<and> parseAttributes ''a=1'' empty_object = None"
proof -
  have h: "sep_free ''a''" "\<not> is_space CHR ''1''" "CHR ''1'' \<noteq> CHR 0x27"
    "CHR ''1'' \<noteq> CHR 0x22" "CHR 0x20 \<notin> set []"
    by (simp_all add: sep_free_def is_space_def)
  from C1_parseAttributes_unquoted_last_value_never_returns [OF h, of empty_object] h
  show ?thesis
    by simp
qed

text \<open>
  Claim C9.  The claim: a value that opens with a quote which is never closed is assigned
  the rest of the string, trimmed, and no error is reported.  The code: the search for
  the closing quote gives -1, the value stored is the rest without its first and its
  last character (for \<^verbatim>\<open>a="foo\<close>: \<^verbatim>\<open>fo\<close>), and the recursive call is made on the
  whole text again.  For every name without \<^verbatim>\<open>=\<close> and white space and every value
  that opens with a quote which does not occur again, the call never returns.
\<close>

theorem C9_parseAttributes_unclosed_quote_never_returns:
  assumes "sep_free name" and "q = CHR 0x27 \<or> q = CHR 0x22" and "q \<notin> set v"
  shows "parseAttributes (name @ CHR ''='' # q # v) acc = None"
  using assms
  by (intro parseAttributes_value_without_end) (auto simp: no_value_end_def is_space_def)

theorem C9_parseAttributes_unclosed_quote_never_returns_witness:
  \<open>sep_free ''a'' \<and> CHR 0x22 \<notin> set ''foo'' \<and> parseAttributes ''a="foo'' empty_object = None\<close>
proof -
  have h: "sep_free ''a''" "CHR 0x22 = CHR 0x27 \<or> CHR 0x22 = CHR 0x22" "CHR 0x22 \<notin> set ''foo''"
    by (simp_all add: sep_free_def is_space_def)
  from C9_parseAttributes_unclosed_quote_never_returns [OF h, of empty_object] h
  show ?thesis
    by simp
qed


section \<open>Properties of the tokenizer\<close>

text \<open>
  The constructor refuses the text of \<^verbatim>\<open>RE_TAG\<close>: when its end is reached the group
  \<^verbatim>\<open>qualname\<close> is still open.  So the tokenizer and \<^verbatim>\<open>parse\<close> end, for every text, with
  the \<^verbatim>\<open>SyntaxError\<close> of the module's loading.
\<close>

lemma RE_TAG_SyntaxError: "RE_TAG = Inl (SyntaxError ''Unterminated group'')"
  by code_simp

lemma iterMarkers_SyntaxError:
  "iterMarkers text lastIndex = Inl (SyntaxError ''Unterminated group'')"
  by (simp add: iterMarkers_def RE_TAG_SyntaxError)

lemma parse_from_SyntaxError:
  "parse_from text lastIndex = Inl (SyntaxError ''Unterminated group'')"
  by (simp add: parse_from_def iterMarkers_SyntaxError)

lemma parse_SyntaxError: "parse text = Inl (SyntaxError ''Unterminated group'')"
  by (simp add: parse_def parse_from_SyntaxError)

text \<open>
  A match consumes at least \<open>minlen\<close> characters, so a pattern with a positive \<open>minlen\<close>
  moves the cursor at every match and \<^verbatim>\<open>IterMatches\<close> finishes for it.
\<close>

lemma rmatch_minlen:
  "rmatch r s e k = Some x \<Longrightarrow> \<exists>s' e'. k s' e' = Some x \<and> length s' + minlen r \<le> length s"
proof (induction r s e k arbitrary: x rule: rmatch.induct)
  case (1 s e k)
  then show ?case by auto
next
  case (2 c s e k)
  then show ?case by (auto split: list.splits if_splits)
next
  case (3 P s e k)
  then show ?case by (auto split: list.splits if_splits)
next
  case (4 r1 r2 s e k)
  from 4(3) have "rmatch r1 s e (\<lambda>s' e'. rmatch r2 s' e' k) = Some x" by simp
  from 4(2) [OF this] obtain s1 e1 where a: "rmatch r2 s1 e1 k = Some x" "length s1 + minlen r1 \<le> length s"
    by auto
  from 4(1) [OF a(1)] obtain s2 e2 where "k s2 e2 = Some x" "length s2 + minlen r2 \<le> length s1"
    by auto
  with a show ?case by (intro exI [of _ s2] exI [of _ e2]) auto
next
  case (5 r1 r2 s e k)
  then show ?case by (fastforce split: option.splits)
next
  case (6 r s e k)
  then show ?case by (fastforce split: option.splits)
next
  case (7 r s e k)
  show ?case
  proof (cases "rmatch r s e (\<lambda>s' e'. if length s' < length s then rmatch (Star r) s' e' k else None)")
    case None
    with 7(3) show ?thesis by auto
  next
    case (Some y)
    with 7(3) have xy: "y = x" by simp
    from 7(2) [OF Some] obtain s1 e1 where
      a: "(if length s1 < length s then rmatch (Star r) s1 e1 k else None) = Some y" by auto
    then have l: "length s1 < length s" and b: "rmatch (Star r) s1 e1 k = Some y"
      by (auto split: if_splits)
    from 7(1) [OF l b] obtain s2 e2 where "k s2 e2 = Some y" "length s2 \<le> length s1" by auto
    with l xy show ?thesis by (intro exI [of _ s2] exI [of _ e2]) auto
  qed
next
  case (8 r s e k)
  show ?case
  proof (cases "k s e")
    case (Some y)
    with 8(3) show ?thesis by auto
  next
    case None
    with 8(3) have c: "rmatch r s e (\<lambda>s' e'. if length s' < length s then rmatch (LazyStar r) s' e' k else None) = Some x"
      by simp
    from 8(2) [OF None c] obtain s1 e1 where
      a: "(if length s1 < length s then rmatch (LazyStar r) s1 e1 k else None) = Some x" by auto
    then have l: "length s1 < length s" and b: "rmatch (LazyStar r) s1 e1 k = Some x"
      by (auto split: if_splits)
    from 8(1) [OF None l b] obtain s2 e2 where "k s2 e2 = Some x" "length s2 \<le> length s1" by auto
    with l show ?thesis by (intro exI [of _ s2] exI [of _ e2]) auto
  qed
next
  case (9 n r s e k)
  from 9(2) have "rmatch r s e (\<lambda>s' e'. k s' ((n, take (length s - length s') s) # e')) = Some x" by simp
  from 9(1) [OF this] show ?case by auto
qed

lemma match_at_nonempty:
  assumes "match_at r s p = Some m"
  shows "match_index m = p \<and> minlen r \<le> length (match_0 m) \<and> length (match_0 m) \<le> length s"
proof (cases "rmatch r s [] (\<lambda>s' e. Some (s', e))")
  case None
  with assms show ?thesis by (simp add: match_at_def)
next
  case (Some y)
  obtain s' e where y: "y = (s', e)" by (cases y)
  from rmatch_minlen [OF Some] y have "length s' + minlen r \<le> length s" by auto
  with assms Some y show ?thesis by (auto simp: match_at_def)
qed

lemma scan_nonempty:
  "scan r s p = Some m \<Longrightarrow> p \<le> match_index m \<and> minlen r \<le> length (match_0 m)
     \<and> match_index m + length (match_0 m) \<le> p + length s"
proof (induction s arbitrary: p)
  case Nil
  then show ?case using match_at_nonempty [of r "[]" p m] by auto
next
  case (Cons c cs)
  show ?case
  proof (cases "match_at r (c # cs) p")
    case None
    with Cons.prems have "scan r cs (Suc p) = Some m" by simp
    from Cons.IH [OF this] show ?thesis by simp
  next
    case (Some m')
    with Cons.prems have "m' = m" by simp
    with Some match_at_nonempty [of r "c # cs" p m] show ?thesis by simp
  qed
qed

lemma exec_advances:
  assumes "exec r t li = (Some m, li')" and "0 < minlen r"
  shows "li < li'"
  using assms scan_nonempty [of r "drop li t" li m]
  by (auto simp: exec_def split: if_splits option.splits)

lemma IterMatches_loop_total:
  "0 < minlen r \<Longrightarrow> IterMatches_loop r t li off \<noteq> None"
proof (induction r t li off rule: IterMatches_loop.induct)
  case (1 pattern t lastIndex offset)
  show ?case
  proof (cases "exec pattern t lastIndex")
    case (Pair a b)
    show ?thesis
    proof (cases a)
      case None
      with Pair show ?thesis by (subst IterMatches_loop.simps) simp
    next
      case (Some m)
      from exec_advances [OF Pair [unfolded Some] 1(2)] have adv: "lastIndex < b" .
      from 1(1) [OF Pair [symmetric] Some adv 1(2)]
      show ?thesis using Pair Some adv
        by (subst IterMatches_loop.simps) (auto split: option.splits)
    qed
  qed
qed

lemma IterMatches_loop_final:
  "IterMatches_loop r t li off = Some (items, final) \<Longrightarrow> final = 0"
proof (induction r t li off arbitrary: items final rule: IterMatches_loop.induct)
  case (1 pattern t lastIndex offset)
  show ?case
  proof (cases "exec pattern t lastIndex")
    case (Pair a b)
    show ?thesis
    proof (cases a)
      case None
      with Pair have "b = 0" by (auto simp: exec_def split: if_splits option.splits)
      with 1(2) Pair None show ?thesis by (subst (asm) IterMatches_loop.simps) auto
    next
      case (Some m)
      from 1(2) Pair Some have adv: "lastIndex < b"
        by (subst (asm) IterMatches_loop.simps) (auto split: if_splits)
      from 1(2) Pair Some adv obtain items' where
        "IterMatches_loop pattern t b (max (offset + 1) (match_index m + length (match_0 m)))
           = Some (items', final)"
        by (subst (asm) IterMatches_loop.simps) (auto split: option.splits)
      from 1(1) [OF Pair [symmetric] Some adv this] show ?thesis .
    qed
  qed
qed

lemma markers_of_items_cursor:
  "markers_of_items items final = (Some ms, c) \<Longrightarrow> c = final"
  by (induction items arbitrary: ms) (auto split: option.splits prod.splits)




section \<open>Properties of the node model\<close>

lemma index_of_from_None: "index_of_from x xs i = None \<longleftrightarrow> x \<notin> set xs"
  by (induction xs arbitrary: i) auto

lemma index_of_from_Some:
  "index_of_from x xs i = Some j \<Longrightarrow> i \<le> j \<and> j - i < length xs \<and> xs ! (j - i) = x \<and> x \<notin> set (take (j - i) xs)"
proof (induction xs arbitrary: i)
  case Nil
  then show ?case by simp
next
  case (Cons y ys)
  show ?case
  proof (cases "y = x")
    case True
    with Cons.prems show ?thesis by simp
  next
    case False
    with Cons.prems have "index_of_from x ys (Suc i) = Some j" by simp
    from Cons.IH [OF this] False show ?thesis
      by (auto simp: Suc_diff_le nth_Cons' take_Cons')
  qed
qed

lemma index_of_None: "index_of x xs = None \<longleftrightarrow> x \<notin> set xs"
  by (simp add: index_of_def index_of_from_None)

lemma index_of_Some:
  "index_of x xs = Some j \<Longrightarrow> j < length xs \<and> xs ! j = x \<and> x \<notin> set (take j xs)"
  using index_of_from_Some [of x xs 0 j] by (simp add: index_of_def)

lemma remove_at_distinct:
  assumes "distinct xs" "j < length xs"
  shows "set (take j xs @ drop (Suc j) xs) = set xs - {xs ! j}" "distinct (take j xs @ drop (Suc j) xs)"
proof -
  from assms have xs: "xs = take j xs @ xs ! j # drop (Suc j) xs"
    by (simp add: id_take_nth_drop)
  with assms(1) have d: "distinct (take j xs @ xs ! j # drop (Suc j) xs)" by simp
  then show "distinct (take j xs @ drop (Suc j) xs)" by auto
  from d have "xs ! j \<notin> set (take j xs) \<union> set (drop (Suc j) xs)" by auto
  moreover have "set xs = set (take j xs) \<union> {xs ! j} \<union> set (drop (Suc j) xs)"
    by (subst xs) auto
  ultimately show "set (take j xs @ drop (Suc j) xs) = set xs - {xs ! j}" by auto
qed

lemma removeChild_absent: "child \<notin> set (childNodes (h this)) \<Longrightarrow> removeChild h this child = h"
  by (simp add: removeChild_def index_of_None [symmetric])

lemma removeChild_found:
  assumes "index_of child (childNodes (h this)) = Some j"
  shows "removeChild h this child =
           (h(this := (h this)\<lparr>childNodes :=
                take j (childNodes (h this)) @ drop (Suc j) (childNodes (h this))\<rparr>))
           (child := ((h(this := (h this)\<lparr>childNodes :=
                take j (childNodes (h this)) @ drop (Suc j) (childNodes (h this))\<rparr>)) child)
              \<lparr>parentNode := None\<rparr>)"
  using assms index_of_Some [OF assms] by (simp add: removeChild_def Let_def)

lemma removeChild_present:
  assumes "distinct (childNodes (h this))" "child \<in> set (childNodes (h this))"
  shows "parentNode (removeChild h this child child) = None"
    and "set (childNodes (removeChild h this child this)) = set (childNodes (h this)) - {child}"
    and "distinct (childNodes (removeChild h this child this))"
    and "\<And>q. q \<noteq> this \<Longrightarrow> childNodes (removeChild h this child q) = childNodes (h q)"
    and "\<And>q. q \<noteq> child \<Longrightarrow> parentNode (removeChild h this child q) = parentNode (h q)"
proof -
  from assms(2) obtain j where j: "index_of child (childNodes (h this)) = Some j"
    by (cases "index_of child (childNodes (h this))") (auto simp: index_of_None)
  from index_of_Some [OF j]
  have jj: "j < length (childNodes (h this))" "childNodes (h this) ! j = child"
    by auto
  note r = remove_at_distinct [of "childNodes (h this)" j, OF assms(1) jj(1)]
  note eq = removeChild_found [where h = h and this = this and child = child, OF j]
  show "parentNode (removeChild h this child child) = None"
    by (simp add: eq)
  have c: "childNodes (removeChild h this child this)
             = take j (childNodes (h this)) @ drop (Suc j) (childNodes (h this))"
    unfolding eq by simp
  show "set (childNodes (removeChild h this child this)) = set (childNodes (h this)) - {child}"
    using r(1) jj(2) by (simp only: c)
  show "distinct (childNodes (removeChild h this child this))"
    using r(2) by (simp only: c)
  show "\<And>q. q \<noteq> this \<Longrightarrow> childNodes (removeChild h this child q) = childNodes (h q)"
    by (simp add: eq)
  show "\<And>q. q \<noteq> child \<Longrightarrow> parentNode (removeChild h this child q) = parentNode (h q)"
    by (simp add: eq)
qed

lemma removeChild_well_linked:
  assumes "well_linked h"
  shows "well_linked (removeChild h this child)"
proof (cases "child \<in> set (childNodes (h this))")
  case False
  with assms show ?thesis by (simp add: removeChild_absent)
next
  case True
  from assms have d: "distinct (childNodes (h this))" by (simp add: well_linked_def)
  note r = removeChild_present [of h this child, OF d True]
  show ?thesis
    unfolding well_linked_def
  proof (intro allI conjI)
    fix p
    show "distinct (childNodes (removeChild h this child p))"
      using r(3) r(4) [of p] assms by (cases "p = this") (auto simp: well_linked_def)
    show "list_all (\<lambda>c. parentNode (removeChild h this child c) = Some p) (childNodes (removeChild h this child p))"
    proof (cases "p = this")
      case True
      then show ?thesis using r(2) r(5) assms
        by (auto simp: well_linked_def list_all_iff)
    next
      case False
      have "c \<noteq> child" if "c \<in> set (childNodes (h p))" for c
      proof
        assume "c = child"
        with that assms have "parentNode (h child) = Some p"
          by (auto simp: well_linked_def list_all_iff)
        moreover from True assms have "parentNode (h child) = Some this"
          by (auto simp: well_linked_def list_all_iff)
        ultimately show False using False by simp
      qed
      then show ?thesis using r(4) [OF False] r(5) assms
        by (auto simp: well_linked_def list_all_iff)
    qed
  qed
qed

lemma appendChild_each_one:
  "nodeType (h node) \<noteq> DOCUMENT_FRAGMENT_NODE \<Longrightarrow> appendChild_each h this [node] = Some (append_one h this node)"
  by (subst appendChild_each.simps, simp, subst appendChild_each.simps, simp)


lemma append_one_detach:
  "append_one h this node =
     (let h1 = detach h node;
          h2 = h1(this := (h1 this)\<lparr>childNodes := childNodes (h1 this) @ [node]\<rparr>)
      in h2(node := (h2 node)\<lparr>parentNode := Some this\<rparr>))"
  by (simp add: append_one_def detach_def)

lemma well_linked_children: "well_linked h \<Longrightarrow> c \<in> set (childNodes (h p)) \<Longrightarrow> parentNode (h c) = Some p"
  by (auto simp: well_linked_def list_all_iff)

lemma well_linked_distinct: "well_linked h \<Longrightarrow> distinct (childNodes (h p))"
  by (simp add: well_linked_def)

lemma well_linked_orphan:
  assumes "well_linked h" and "\<And>q. N \<notin> set (childNodes (h q))"
  shows "well_linked (h(N := (h N)\<lparr>parentNode := x\<rparr>))"
  unfolding well_linked_def
proof (intro allI conjI)
  fix p
  show "distinct (childNodes ((h(N := (h N)\<lparr>parentNode := x\<rparr>)) p))"
    using well_linked_distinct [OF assms(1), of p] well_linked_distinct [OF assms(1), of N]
    by (cases "p = N") simp_all
  show "list_all (\<lambda>c. parentNode ((h(N := (h N)\<lparr>parentNode := x\<rparr>)) c) = Some p)
          (childNodes ((h(N := (h N)\<lparr>parentNode := x\<rparr>)) p))"
    using assms(2) [of p] well_linked_children [OF assms(1), of _ p]
    by (auto simp: list_all_iff)
qed

lemma detach_props:
  assumes "well_linked h"
  shows "well_linked (detach h N)"
    and "parentNode (detach h N N) = None"
    and "N \<notin> set (childNodes (detach h N q))"
proof -
  have all: "well_linked (detach h N) \<and> parentNode (detach h N N) = None
      \<and> (\<forall>q. N \<notin> set (childNodes (detach h N q)))"
  proof (cases "parentNode (h N)")
    case None
    then have "N \<notin> set (childNodes (h q))" for q
      using well_linked_children [OF assms, of N q] by auto
    with None assms show ?thesis by (simp add: detach_def)
  next
    case (Some p)
    let ?h = "removeChild h p N"
    have wl: "well_linked ?h" by (rule removeChild_well_linked [OF assms])
    have notin: "N \<notin> set (childNodes (?h q))" for q
    proof (cases "N \<in> set (childNodes (h p))")
      case True
      note r = removeChild_present [of h p N, OF well_linked_distinct [OF assms] True]
      show ?thesis
      proof (cases "q = p")
        case True
        with r(2) show ?thesis by simp
      next
        case False
        from r(4) [OF False] have "childNodes (?h q) = childNodes (h q)" .
        moreover have "N \<notin> set (childNodes (h q))"
          using well_linked_children [OF assms, of N q] Some False by auto
        ultimately show ?thesis by simp
      qed
    next
      case False
      then have "?h = h" by (rule removeChild_absent)
      moreover have "N \<notin> set (childNodes (h q))"
        using well_linked_children [OF assms, of N q] Some False by auto
      ultimately show ?thesis by simp
    qed
    have d: "detach h N = ?h(N := (?h N)\<lparr>parentNode := None\<rparr>)"
      using Some by (simp add: detach_def Let_def)
    from well_linked_orphan [of ?h N None, OF wl notin] notin show ?thesis
      unfolding d by simp
  qed
  from all show "well_linked (detach h N)" "parentNode (detach h N N) = None"
    "N \<notin> set (childNodes (detach h N q))" by auto
qed

lemma append_one_props:
  assumes "well_linked h"
  shows "well_linked (append_one h A N)"
    and "parentNode (append_one h A N N) = Some A"
    and "childNodes (append_one h A N A) = childNodes (detach h N A) @ [N]"
    and "q \<noteq> A \<Longrightarrow> N \<notin> set (childNodes (append_one h A N q))"
proof -
  let ?D = "detach h N"
  note D = detach_props [OF assms, of N]
  let ?h2 = "?D(A := (?D A)\<lparr>childNodes := childNodes (?D A) @ [N]\<rparr>)"
  have eq: "append_one h A N = ?h2(N := (?h2 N)\<lparr>parentNode := Some A\<rparr>)"
    by (simp add: append_one_detach Let_def)
  show "parentNode (append_one h A N N) = Some A"
    unfolding eq by simp
  show c: "childNodes (append_one h A N A) = childNodes (?D A) @ [N]"
    unfolding eq by simp
  have other: "childNodes (append_one h A N q) = childNodes (?D q)" if "q \<noteq> A" for q
    unfolding eq using that by simp
  show "q \<noteq> A \<Longrightarrow> N \<notin> set (childNodes (append_one h A N q))"
    using other [of q] D(3) [of q] by simp
  have par: "parentNode (append_one h A N c) = parentNode (?D c)" if "c \<noteq> N" for c
    unfolding eq using that by simp
  show "well_linked (append_one h A N)"
    unfolding well_linked_def
  proof (intro allI conjI)
    fix p
    show "distinct (childNodes (append_one h A N p))"
      using c other [of p] D(3) [of p] well_linked_distinct [OF D(1), of p]
      by (cases "p = A") auto
    show "list_all (\<lambda>c. parentNode (append_one h A N c) = Some p) (childNodes (append_one h A N p))"
    proof (cases "p = A")
      case True
      have "parentNode (append_one h A N x) = Some A" if "x \<in> set (childNodes (?D A))" for x
      proof -
        from that D(3) [of A] have "x \<noteq> N" by auto
        from par [OF this] well_linked_children [OF D(1) that] show ?thesis by simp
      qed
      with True c \<open>parentNode (append_one h A N N) = Some A\<close> show ?thesis
        by (auto simp: list_all_iff)
    next
      case False
      have "parentNode (append_one h A N x) = Some p" if "x \<in> set (childNodes (?D p))" for x
      proof -
        from that D(3) [of p] have "x \<noteq> N" by auto
        from par [OF this] well_linked_children [OF D(1) that] show ?thesis by simp
      qed
      with other [OF False] show ?thesis by (auto simp: list_all_iff)
    qed
  qed
qed


subsection \<open>Attribute maps\<close>

lemma jsmap_get_Nil [simp]: "jsmap_get [] k = None"
  by (simp add: jsmap_get_def)

lemma jsmap_get_Cons [simp]: "jsmap_get ((k, v) # m) k' = (if k' = k then Some v else jsmap_get m k')"
  by (simp add: jsmap_get_def)

lemma map_of_jsmap_set: "map_of (jsmap_set k v m) k' = (if k' = k then Some v else map_of m k')"
  by (induction m) auto

lemma jsmap_get_set [simp]: "jsmap_get (jsmap_set k v m) k' = (if k' = k then Some v else jsmap_get m k')"
  by (simp add: jsmap_get_def map_of_jsmap_set)

lemma jsmap_has_get: "jsmap_has m k = (jsmap_get m k \<noteq> None)"
  by (simp add: jsmap_has_def jsmap_get_def)

lemma jsmap_get_delete [simp]:
  "jsmap_get (jsmap_delete k m) k' = (if k' = k then None else jsmap_get m k')"
  by (induction m) (auto simp: jsmap_get_def jsmap_delete_def)

lemma removed_from_every_namespace:
  "jsmap_get (filter (\<lambda>(ns, nsMap). nsMap \<noteq> []) (map (\<lambda>(ns, nsMap). (ns, jsmap_delete name nsMap)) m)) ns'
     = Some nsMap \<Longrightarrow> jsmap_get nsMap name = None"
  by (induction m) (auto split: if_splits)

lemma setAttributeNS_default_map:
  "ns \<noteq> [] \<Longrightarrow> attributes (setAttributeNS h this ns name v this) = attributes (h this)"
  by (auto simp: setAttributeNS_def set_attr_value_def new_AttributeNode_def truthy_def
      or_empty_def Let_def jsmap_has_get split: option.splits)

lemma setAttributeNS_ns_map:
  "ns \<noteq> [] \<Longrightarrow> \<exists>nsMap. jsmap_get (attributesNS (setAttributeNS h this ns name v this)) ns = Some nsMap
     \<and> jsmap_get nsMap name = Some \<lparr>attr_name = name, attr_namespace = Some ns,
          ownerElement = Some this, attr_value_field = Some v\<rparr>"
  by (auto simp: setAttributeNS_def set_attr_value_def new_AttributeNode_def truthy_def
      or_empty_def Let_def jsmap_has_get split: option.splits)

lemma removeAttribute_default_map:
  "jsmap_get (attributes (removeAttribute h this name this)) name = None"
  by (simp add: removeAttribute_def Let_def)

lemma removeAttribute_ns_maps:
  "jsmap_get (attributesNS (removeAttribute h this name this)) ns' = Some nsMap \<Longrightarrow> jsmap_get nsMap name = None"
  by (auto simp: removeAttribute_def Let_def dest: removed_from_every_namespace)


subsection \<open>The claims on mutation\<close>

text \<open>
  Claim C7.  The claim: for any nodes \<open>A\<close> and \<open>N\<close>, after \<^verbatim>\<open>appendChild(A, N)\<close> the
  parent of \<open>N\<close> is \<open>A\<close> and \<open>A\<close>'s children hold \<open>N\<close> exactly once; after
  \<^verbatim>\<open>removeChild(A, N)\<close> the parent of \<open>N\<close> is \<^verbatim>\<open>null\<close> and \<open>A\<close>'s children do not hold
  \<open>N\<close>.  The code: a document fragment \<open>N\<close> is not appended itself, its children are
  (none here), so \<open>N\<close> gets no parent and is no child of \<open>A\<close>; \<^verbatim>\<open>removeChild\<close> of a
  node that is not a child changes nothing, so \<open>N\<close> keeps the parent it has; and a child
  of \<open>A\<close> whose \<^verbatim>\<open>parentNode\<close> is \<^verbatim>\<open>null\<close> is not detached before it is appended, so \<open>A\<close>
  holds it twice.
\<close>

theorem C7_fragment_and_foreign_child_counterexample:
  "(case appendChild ((\<lambda>_. new_Element ''d'' None)(1 := new_DocumentFragment)) 0 1 of
      None \<Rightarrow> False
    | Some (h', r) \<Rightarrow> parentNode (h' 1) = None \<and> childNodes (h' 0) = [])
   \<and> parentNode
        (removeChild ((\<lambda>_. new_Element ''d'' None)
                       (2 := (new_Element ''d'' None)\<lparr>childNodes := [1]\<rparr>,
                        1 := (new_Element ''w'' None)\<lparr>parentNode := Some 2\<rparr>)) 0 1 1)
      = Some 2
   \<and> (case appendChild ((\<lambda>_. new_Element ''d'' None)
                          (0 := (new_Element ''d'' None)\<lparr>childNodes := [1]\<rparr>)) 0 1 of
         None \<Rightarrow> False
       | Some (h', r) \<Rightarrow> childNodes (h' 0) = [1, 1])"
  by code_simp

text \<open>
  Claim C7, amended.  In a well linked heap, for a node \<open>N\<close> that is not a document
  fragment and a node \<open>A\<close> that is not a \<^verbatim>\<open>TemplateElement\<close>, \<^verbatim>\<open>appendChild(A, N)\<close>
  returns \<open>A\<close> and leaves \<open>N\<close> with parent \<open>A\<close>, exactly once among \<open>A\<close>'s children and
  among no other node's (it was detached from its parent, also when that was \<open>A\<close>).  For
  a child \<open>N\<close> of \<open>A\<close>, \<^verbatim>\<open>removeChild(A, N)\<close> leaves \<open>N\<close> without parent and out of \<open>A\<close>'s
  children.  Both leave the heap well linked.
\<close>

theorem C7_appendChild_removeChild_links:
  assumes "well_linked h"
  shows "(nodeType (h N) \<noteq> DOCUMENT_FRAGMENT_NODE \<and> content (h A) = None \<longrightarrow>
           (\<exists>h'. appendChild h A N = Some (h', A) \<and> parentNode (h' N) = Some A
              \<and> count_list (childNodes (h' A)) N = 1
              \<and> (\<forall>q. q \<noteq> A \<longrightarrow> N \<notin> set (childNodes (h' q)))
              \<and> well_linked h'))
       \<and> (N \<in> set (childNodes (h A)) \<longrightarrow>
            parentNode (removeChild h A N N) = None
            \<and> N \<notin> set (childNodes (removeChild h A N A)))
       \<and> well_linked (removeChild h A N)"
proof (intro conjI impI)
  assume a: "nodeType (h N) \<noteq> DOCUMENT_FRAGMENT_NODE \<and> content (h A) = None"
  have p1: "well_linked (append_one h A N)"
    and p2: "parentNode (append_one h A N N) = Some A"
    and p3: "childNodes (append_one h A N A) = childNodes (detach h N A) @ [N]"
    using append_one_props [OF assms] by blast+
  have p4: "N \<notin> set (childNodes (append_one h A N q))" if "q \<noteq> A" for q
    using append_one_props(4) [OF assms that] .
  have "count_list (childNodes (append_one h A N A)) N = 1"
    using p3 detach_props(3) [OF assms, of N A] by (simp add: count_list_0_iff)
  with a p1 p2 p4
  show "\<exists>h'. appendChild h A N = Some (h', A) \<and> parentNode (h' N) = Some A
              \<and> count_list (childNodes (h' A)) N = 1
              \<and> (\<forall>q. q \<noteq> A \<longrightarrow> N \<notin> set (childNodes (h' q)))
              \<and> well_linked h'"
    by (auto simp: appendChild_def Node_appendChild_def appendChild_each_one)
next
  assume "N \<in> set (childNodes (h A))"
  note r = removeChild_present [of h A N, OF well_linked_distinct [OF assms] this]
  from r(1) show "parentNode (removeChild h A N N) = None" .
  from r(2) show "N \<notin> set (childNodes (removeChild h A N A))" by simp
next
  show "well_linked (removeChild h A N)" by (rule removeChild_well_linked [OF assms])
qed

lemma well_linked_example:
  "well_linked ((\<lambda>_. new_Element ''d'' None)
                 (0 := (new_Element ''d'' None)\<lparr>childNodes := [1]\<rparr>,
                  1 := (new_Element ''w'' None)\<lparr>parentNode := Some 0\<rparr>))"
  by (auto simp: well_linked_def new_Element_def new_Node_def)

theorem C7_appendChild_removeChild_links_witness:
  "well_linked ((\<lambda>_. new_Element ''d'' None)
                 (0 := (new_Element ''d'' None)\<lparr>childNodes := [1]\<rparr>,
                  1 := (new_Element ''w'' None)\<lparr>parentNode := Some 0\<rparr>))
   \<and> (\<exists>h'. appendChild ((\<lambda>_. new_Element ''d'' None)
                 (0 := (new_Element ''d'' None)\<lparr>childNodes := [1]\<rparr>,
                  1 := (new_Element ''w'' None)\<lparr>parentNode := Some 0\<rparr>)) 0 1 = Some (h', 0)
          \<and> parentNode (h' 1) = Some 0 \<and> count_list (childNodes (h' 0)) 1 = 1)
   \<and> parentNode (removeChild ((\<lambda>_. new_Element ''d'' None)
                 (0 := (new_Element ''d'' None)\<lparr>childNodes := [1]\<rparr>,
                  1 := (new_Element ''w'' None)\<lparr>parentNode := Some 0\<rparr>)) 0 1 1) = None"
proof -
  let ?h = "(\<lambda>_::nat. new_Element ''d'' None)
                 (0 := (new_Element ''d'' None)\<lparr>childNodes := [1]\<rparr>,
                  1 := (new_Element ''w'' None)\<lparr>parentNode := Some 0\<rparr>)"
  have n: "nodeType (?h 1) \<noteq> DOCUMENT_FRAGMENT_NODE \<and> content (?h 0) = None"
    by (simp add: new_Element_def new_Node_def)
  have c: "1 \<in> set (childNodes (?h 0))"
    by (simp add: new_Element_def new_Node_def)
  from C7_appendChild_removeChild_links [OF well_linked_example, of 1 0] n c
  show ?thesis
    using well_linked_example by blast
qed

text \<open>
  Claim C8.  \<^verbatim>\<open>insertBefore(node, null)\<close> is \<^verbatim>\<open>appendChild(node)\<close>: the same heap, the
  same result.  With a reference node that is not among the children of \<open>this\<close> it throws
  the error whose message names the missing reference, and the heap is as before: the
  child lists and every \<^verbatim>\<open>parentNode\<close> are unchanged.
\<close>

theorem C8_insertBefore_null_and_missing_reference:
  "insertBefore h this newNode None
     = (case appendChild h this newNode of None \<Rightarrow> None | Some (h', r) \<Rightarrow> Some (h', Inr r))
   \<and> (referenceNode \<notin> set (childNodes (h this)) \<longrightarrow>
        insertBefore h this newNode (Some referenceNode)
          = Some (h, Inl (Error reference_not_found)))"
proof (intro conjI impI)
  show "insertBefore h this newNode None
     = (case appendChild h this newNode of None \<Rightarrow> None | Some (h', r) \<Rightarrow> Some (h', Inr r))"
    by (simp add: insertBefore_def)
next
  assume "referenceNode \<notin> set (childNodes (h this))"
  then have "index_of referenceNode (childNodes (h this)) = None"
    by (simp add: index_of_None)
  then have "insertBefore_each h this referenceNode [newNode] = Some (h, Some reference_not_found)"
    by (subst insertBefore_each.simps) (simp add: insertBefore_step_def)
  then show "insertBefore h this newNode (Some referenceNode)
          = Some (h, Inl (Error reference_not_found))"
    by (simp add: insertBefore_def)
qed

theorem C8_insertBefore_null_and_missing_reference_witness:
  "2 \<notin> set (childNodes ((\<lambda>_. new_Element ''d'' None) 0))
   \<and> insertBefore (\<lambda>_. new_Element ''d'' None) 0 1 (Some 2)
       = Some (\<lambda>_. new_Element ''d'' None, Inl (Error reference_not_found))"
proof -
  have a: "2 \<notin> set (childNodes ((\<lambda>_. new_Element ''d'' None) 0))"
    by (simp add: new_Element_def new_Node_def)
  from C8_insertBefore_null_and_missing_reference [of "\<lambda>_. new_Element ''d'' None" 0 1 2] a
  show ?thesis
    by blast
qed

subsection \<open>The claim on namespaced attributes\<close>

text \<open>
  Claim C10.  The claim: for every element, an attribute set only through
  \<^verbatim>\<open>setAttributeNS(ns, name, value)\<close> is invisible to \<^verbatim>\<open>getAttribute\<close>, \<^verbatim>\<open>hasAttribute\<close>
  and \<^verbatim>\<open>getAttributeNode\<close>.  The code: the setter of the attribute node files the node
  under the namespace only \<^verbatim>\<open>if (this.namespace)\<close>; with the empty string as namespace
  it files it in the default map, where all three find it.
\<close>

theorem C10_empty_namespace_counterexample:
  "hasAttribute (setAttributeNS (\<lambda>_. new_Element ''d'' None) 0 [] ''a'' ''v'') 0 ''a''
   \<and> getAttribute (setAttributeNS (\<lambda>_. new_Element ''d'' None) 0 [] ''a'' ''v'') 0 ''a''
       = Some ''v''"
  by code_simp

text \<open>
  Claim C10, amended.  For every element and every namespace other than the empty
  string: an attribute the default map does not hold and that is set through
  \<^verbatim>\<open>setAttributeNS(ns, name, value)\<close> is invisible to \<^verbatim>\<open>getAttribute\<close>, \<^verbatim>\<open>hasAttribute\<close>
  and \<^verbatim>\<open>getAttributeNode\<close>, while \<^verbatim>\<open>getAttributeNS\<close> reads its value; and
  \<^verbatim>\<open>removeAttribute(name)\<close> takes the name out of the default map and out of the map of
  every namespace.
\<close>

theorem C10_namespaced_attribute_invisible:
  assumes "ns \<noteq> []" and "\<not> hasAttribute h this name"
  shows "getAttribute (setAttributeNS h this ns name v) this name = None
    \<and> \<not> hasAttribute (setAttributeNS h this ns name v) this name
    \<and> getAttributeNode (setAttributeNS h this ns name v) this name = None
    \<and> getAttributeNS (setAttributeNS h this ns name v) this ns name = Some v
    \<and> \<not> hasAttribute (removeAttribute (setAttributeNS h this ns name v) this name) this name
    \<and> (\<forall>ns'. \<not> hasAttributeNS
                 (removeAttribute (setAttributeNS h this ns name v) this name) this ns' name)"
proof -
  let ?h = "setAttributeNS h this ns name v"
  from assms have none: "jsmap_get (attributes (?h this)) name = None"
    by (simp add: setAttributeNS_default_map hasAttribute_def jsmap_has_get)
  from setAttributeNS_ns_map [OF assms(1), of h this name v]
  have ns: "getAttributeNS ?h this ns name = Some v"
    using assms(1)
    by (auto simp: getAttributeNS_def attr_value_def truthy_def or_empty_def)
  have rm: "\<not> hasAttributeNS (removeAttribute ?h this name) this ns' name" for ns'
    using removeAttribute_ns_maps [of ?h this name ns']
    by (auto simp: hasAttributeNS_def jsmap_has_get split: option.splits)
  from none ns rm removeAttribute_default_map [of ?h this name] show ?thesis
    by (simp add: getAttribute_def hasAttribute_def getAttributeNode_def jsmap_has_get)
qed

theorem C10_namespaced_attribute_invisible_witness:
  "''xlink'' \<noteq> [] \<and> \<not> hasAttribute (\<lambda>_. new_Element ''d'' None) 0 ''href''
    \<and> getAttribute
        (setAttributeNS (\<lambda>_. new_Element ''d'' None) 0 ''xlink'' ''href'' ''u'') 0 ''href''
      = None
    \<and> getAttributeNS
        (setAttributeNS (\<lambda>_. new_Element ''d'' None) 0 ''xlink'' ''href'' ''u'') 0
        ''xlink'' ''href''
      = Some ''u''"
proof -
  have a: "''xlink'' \<noteq> []"
    by simp
  have b: "\<not> hasAttribute (\<lambda>_. new_Element ''d'' None) 0 ''href''"
    by code_simp
  from C10_namespaced_attribute_invisible [OF a b, of "''u''"] a b show ?thesis
    by simp
qed


section \<open>Properties of parsing, serialization and selectors\<close>

text \<open>
  Claim C2.  The claim: for every well-formed markup \<open>M\<close>, re-parsing
  \<^verbatim>\<open>toXML(parse(M))\<close> gives a tree with the tag names, attributes and text of
  \<^verbatim>\<open>parse(M)\<close>.  The code: the pattern of the tokenizer is refused by its constructor when
  the module is loaded, so for every \<open>M\<close> neither \<^verbatim>\<open>parse(M)\<close> nor the round trip gives a
  tree: both end with the \<^verbatim>\<open>SyntaxError\<close>.
\<close>

theorem C2_parse_and_round_trip_throw:
  "parse M = Inl (SyntaxError ''Unterminated group'')
   \<and> reparse fuel M = Inl (SyntaxError ''Unterminated group'')"
  by (simp add: reparse_def parse_SyntaxError)

text \<open>
  Claim C3.  The claim: on the tree of \<^verbatim>\<open><div class="a b"><span id="x"/></div>\<close> the
  selectors \<^verbatim>\<open>#x\<close>, \<^verbatim>\<open>.a\<close> and \<^verbatim>\<open>div span\<close> find the span, the div and the span.  The
  code, on that tree built with \<^verbatim>\<open>createElement\<close>, \<^verbatim>\<open>setAttribute\<close> and \<^verbatim>\<open>appendChild\<close>,
  finds nothing: every selector of a \<^verbatim>\<open>Query\<close> has the empty type and the empty name,
  which the name of no such element equals.
\<close>

theorem C3_selectors_find_nothing:
  \<open>(case div_span_document of
      None \<Rightarrow> False
    | Some h \<Rightarrow>
        tree_of 5 h 0
          = Some (Tree DOCUMENT_NODE ''#document'' [] []
                   [Tree ELEMENT_NODE ''div'' [(''class'', ''a b'')] []
                      [Tree ELEMENT_NODE ''span'' [(''id'', ''x'')] [] []]])
        \<and> querySelector 5 h 0 ''#x'' = Some (Inr None)
        \<and> querySelectorAll 5 h 0 ''.a'' = Some (Inr [])
        \<and> querySelectorAll 5 h 0 ''div span'' = Some (Inr []))\<close>
  by code_simp

text \<open>
  Claim C4.  The claim: parsing \<^verbatim>\<open><img src='x.png'/>\<close> and calling \<^verbatim>\<open>toHTML()\<close> on the
  result emits the one tag \<^verbatim>\<open><img src="x.png" />\<close>.  The code: \<^verbatim>\<open>parse\<close> gives no tree
  but the \<^verbatim>\<open>SyntaxError\<close> of the tokenizer's pattern.  On the document that the markup
  denotes, built with \<^verbatim>\<open>createElement\<close>, \<^verbatim>\<open>setAttribute\<close> and \<^verbatim>\<open>appendChild\<close>,
  \<^verbatim>\<open>toHTML()\<close> emits the prolog line and \<^verbatim>\<open><img src="x.png" >\<close>, and \<^verbatim>\<open>toXML()\<close> the
  prolog line and \<^verbatim>\<open><img src="x.png" />\<close>.
\<close>

theorem C4_parse_throws_and_img_toHTML:
  \<open>parse ''<img src='x.png'/>'' = Inl (SyntaxError ''Unterminated group'')
   \<and> (case img_document of
         None \<Rightarrow> False
       | Some h \<Rightarrow>
           tree_of 5 h 0
             = Some (Tree DOCUMENT_NODE ''#document'' [] []
                      [Tree ELEMENT_NODE ''img'' [(''src'', ''x.png'')] [] []])
           \<and> toHTML 5 h default_options 0 = Some (xml_prolog @ ''<img src="x.png" >'')
           \<and> toXML 5 h default_options 0 = Some (xml_prolog @ ''<img src="x.png" />''))\<close>
proof -
  have \<open>case img_document of
         None \<Rightarrow> False
       | Some h \<Rightarrow>
           tree_of 5 h 0
             = Some (Tree DOCUMENT_NODE ''#document'' [] []
                      [Tree ELEMENT_NODE ''img'' [(''src'', ''x.png'')] [] []])
           \<and> toHTML 5 h default_options 0 = Some (xml_prolog @ ''<img src="x.png" >'')
           \<and> toXML 5 h default_options 0 = Some (xml_prolog @ ''<img src="x.png" />'')\<close>
    by code_simp
  with parse_SyntaxError [of \<open>''<img src='x.png'/>''\<close>] show ?thesis
    by simp
qed

text \<open>
  Claim C5.  The claim: a comment, DOCTYPE or CDATA section adds one Comment node and
  nothing else; its interior becomes no Text node and its End marker pops no element.
  The code: \<^verbatim>\<open>parse\<close> gives no tree but the \<^verbatim>\<open>SyntaxError\<close> of the tokenizer's pattern.
  And its loop tests the name for \<^verbatim>\<open>!\<close> in the Start case only.  Run on the markers of
  \<^verbatim>\<open><d><!--x--><w/></d>\<close>, those of the comment being the three that \<^verbatim>\<open>iterMarkers\<close>
  makes of a match of \<^verbatim>\<open>COMMENT\<close>, it adds the Comment node (its data the opening
  \<^verbatim>\<open><!--\<close>), makes the interior \<^verbatim>\<open>x\<close> a Text node of \<^verbatim>\<open>d\<close>, and pops \<^verbatim>\<open>d\<close> at the End
  marker of the comment: the element \<^verbatim>\<open>w\<close> becomes a child of the document.
\<close>

theorem C5_parse_throws_and_comment_markers:
  "parse ''<d><!--x--><w/></d>'' = Inl (SyntaxError ''Unterminated group'')
   \<and> (case comment_markers ''<d><!--x--><w/></d>'' 3 11 of
         None \<Rightarrow> False
       | Some ms \<Rightarrow>
           map (\<lambda>m. (marker_type m, marker_name m, rawtext (marker_fragment m))) ms
             = [(Start, Some ''!COMMENT'', ''<!--''), (Content, None, ''x''),
                (End, Some ''!COMMENT'', ''-->'')]
           \<and> (case parse_loop
                       (tag_marker Start ''d'' ''<d><!--x--><w/></d>'' 0 3 # ms
                        @ [tag_marker Inline ''w'' ''<d><!--x--><w/></d>'' 11 15,
                           tag_marker End ''d'' ''<d><!--x--><w/></d>'' 15 19]) of
                 None \<Rightarrow> False
               | Some (h, doc) \<Rightarrow>
                   tree_of 5 h doc
                     = Some (Tree DOCUMENT_NODE ''#document'' [] []
                              [Tree ELEMENT_NODE ''d'' [] []
                                 [Tree COMMENT_NODE ''#comment'' [] ''<!--'' [],
                                  Tree TEXT_NODE ''#text'' [] ''x'' []],
                               Tree ELEMENT_NODE ''w'' [] [] []])))"
proof -
  have "case comment_markers ''<d><!--x--><w/></d>'' 3 11 of
         None \<Rightarrow> False
       | Some ms \<Rightarrow>
           map (\<lambda>m. (marker_type m, marker_name m, rawtext (marker_fragment m))) ms
             = [(Start, Some ''!COMMENT'', ''<!--''), (Content, None, ''x''),
                (End, Some ''!COMMENT'', ''-->'')]
           \<and> (case parse_loop
                       (tag_marker Start ''d'' ''<d><!--x--><w/></d>'' 0 3 # ms
                        @ [tag_marker Inline ''w'' ''<d><!--x--><w/></d>'' 11 15,
                           tag_marker End ''d'' ''<d><!--x--><w/></d>'' 15 19]) of
                 None \<Rightarrow> False
               | Some (h, doc) \<Rightarrow>
                   tree_of 5 h doc
                     = Some (Tree DOCUMENT_NODE ''#document'' [] []
                              [Tree ELEMENT_NODE ''d'' [] []
                                 [Tree COMMENT_NODE ''#comment'' [] ''<!--'' [],
                                  Tree TEXT_NODE ''#text'' [] ''x'' []],
                               Tree ELEMENT_NODE ''w'' [] [] []]))"
    by code_simp
  with parse_SyntaxError [of "''<d><!--x--><w/></d>''"] show ?thesis
    by simp
qed

end
